theory Spec2Isabelle
  imports Complex_Main "HOL-Library.AList"
begin

section \<open>Python values, errors and dictionaries\<close>

text \<open>
  The values that travel through \<^verbatim>\<open>predictor.py\<close>: form fields and database columns are
  strings, integers, floats, booleans or \<^verbatim>\<open>None\<close>. A float is a real number (no rounding
  error), the value NaN, or an infinity (\<open>PInf True\<close> is \<^verbatim>\<open>+inf\<close>).
\<close>

datatype pyval = PNone | PBool bool | PInt int | PFloat real | PNaN | PInf bool | PStr string

datatype pyfloat = Finite real | NaN | Infinity bool

fun float_val :: "pyfloat \<Rightarrow> pyval" where
  "float_val (Finite r) = PFloat r"
| "float_val NaN = PNaN"
| "float_val (Infinity b) = PInf b"

datatype pyerror = TypeError | ValueError | IndexError | KeyError | ModelsNotLoaded | DbError

text \<open>
  A Python \<^verbatim>\<open>dict\<close> keeps insertion order and has unique keys: an association list,
  written with \<^const>\<open>AList.update\<close> (an existing key keeps its place, a new key is appended)
  and read with \<^const>\<open>map_of\<close>.
\<close>

type_synonym 'v pydict = "(string \<times> 'v) list"

definition dict_get :: "'v pydict \<Rightarrow> string \<Rightarrow> 'v \<Rightarrow> 'v" where
  \<comment> \<open>\<^verbatim>\<open>d.get(k, default)\<close>\<close>
  "dict_get d k dflt = (case map_of d k of Some v \<Rightarrow> v | None \<Rightarrow> dflt)"

definition dict_merge :: "'v pydict \<Rightarrow> 'v pydict \<Rightarrow> 'v pydict" where
  \<comment> \<open>\<^verbatim>\<open>{**a, **b}\<close>, and \<^verbatim>\<open>dict(items)\<close> when \<open>a\<close> is empty: later entries win\<close>
  "dict_merge a b = fold (\<lambda>(k, v) acc. AList.update k v acc) b a"

definition dict_of_items :: "'v pydict \<Rightarrow> 'v pydict" where
  "dict_of_items items = dict_merge [] items"

subsection \<open>Strings\<close>

definition lower_char :: "char \<Rightarrow> char" where
  "lower_char c =
     (case map_of (zip ''ABCDEFGHIJKLMNOPQRSTUVWXYZ'' ''abcdefghijklmnopqrstuvwxyz'') c of
        Some l \<Rightarrow> l | None \<Rightarrow> c)"

definition upper_char :: "char \<Rightarrow> char" where
  "upper_char c =
     (case map_of (zip ''abcdefghijklmnopqrstuvwxyz'' ''ABCDEFGHIJKLMNOPQRSTUVWXYZ'') c of
        Some u \<Rightarrow> u | None \<Rightarrow> c)"

definition lower :: "string \<Rightarrow> string" where
  \<comment> \<open>\<^verbatim>\<open>str.lower()\<close> on ASCII text\<close>
  "lower s = map lower_char s"

definition upper :: "string \<Rightarrow> string" where
  \<comment> \<open>\<^verbatim>\<open>str.upper()\<close> on ASCII text\<close>
  "upper s = map upper_char s"

definition startswith :: "string \<Rightarrow> string \<Rightarrow> bool" where
  "startswith s p = (take (length p) s = p)"

definition lower_keys :: "'v pydict \<Rightarrow> 'v pydict" where
  \<comment> \<open>\<^verbatim>\<open>{k.lower(): v for k, v in d.items()}\<close>\<close>
  "lower_keys d = dict_of_items (map (\<lambda>(k, v). (lower k, v)) d)"

definition isdigit :: "string \<Rightarrow> bool" where
  \<comment> \<open>\<^verbatim>\<open>str.isdigit()\<close> restricted to ASCII text: non-empty, decimal digits only\<close>
  "isdigit s = (s \<noteq> [] \<and> list_all (\<lambda>c. c \<in> set ''0123456789'') s)"

definition digit_val :: "char \<Rightarrow> int" where
  "digit_val c =
     (case map_of (zip ''0123456789'' [0, 1, 2, 3, 4, 5, 6, 7, 8, 9]) c of
        Some n \<Rightarrow> n | None \<Rightarrow> 0)"

definition int_of_digits :: "string \<Rightarrow> int" where
  \<comment> \<open>\<^verbatim>\<open>int(s)\<close> for a string of decimal digits\<close>
  "int_of_digits s = foldl (\<lambda>acc c. 10 * acc + digit_val c) 0 s"

fun digits_of_nat :: "nat \<Rightarrow> string" where
  "digits_of_nat n =
     (if n < 10 then [''0123456789'' ! n]
      else digits_of_nat (n div 10) @ [''0123456789'' ! (n mod 10)])"

definition str_of_int :: "int \<Rightarrow> string" where
  \<comment> \<open>\<^verbatim>\<open>str(i)\<close> for an integer\<close>
  "str_of_int i = (if i < 0 then CHR ''-'' # digits_of_nat (nat (- i)) else digits_of_nat (nat i))"

text \<open>
  What the Python runtime does with text is not part of the repository and is taken as a
  parameter: \<^verbatim>\<open>str.isdigit()\<close>, which accepts every Unicode digit; \<^verbatim>\<open>int(s)\<close>, which rejects
  some of them (\<open>None\<close> stands for \<^verbatim>\<open>ValueError\<close>); \<^verbatim>\<open>float(s)\<close>, which may yield NaN or an
  infinity (\<open>None\<close> for \<^verbatim>\<open>ValueError\<close>); and \<^verbatim>\<open>str(x)\<close> of a finite float.
\<close>

record pyrt =
  str_isdigit :: "string \<Rightarrow> bool"
  parse_int :: "string \<Rightarrow> int option"
  parse_float :: "string \<Rightarrow> pyfloat option"
  float_str :: "real \<Rightarrow> string"

fun py_str :: "pyrt \<Rightarrow> pyval \<Rightarrow> string" where
  "py_str rt PNone = ''None''"
| "py_str rt (PBool b) = (if b then ''True'' else ''False'')"
| "py_str rt (PInt i) = str_of_int i"
| "py_str rt (PFloat r) = float_str rt r"
| "py_str rt PNaN = ''nan''"
| "py_str rt (PInf b) = (if b then ''inf'' else ''-inf'')"
| "py_str rt (PStr s) = s"

fun py_truthy :: "pyval \<Rightarrow> bool" where
  "py_truthy PNone = False"
| "py_truthy (PBool b) = b"
| "py_truthy (PInt i) = (i \<noteq> 0)"
| "py_truthy (PFloat r) = (r \<noteq> 0)"
| "py_truthy PNaN = True"
| "py_truthy (PInf b) = True"
| "py_truthy (PStr s) = (s \<noteq> [])"

fun py_num :: "pyval \<Rightarrow> real option" where
  \<comment> \<open>the real number a finite numeric value stands for\<close>
  "py_num (PInt i) = Some (of_int i)"
| "py_num (PFloat r) = Some r"
| "py_num (PBool b) = Some (if b then 1 else 0)"
| "py_num PNaN = None"
| "py_num (PInf b) = None"
| "py_num PNone = None"
| "py_num (PStr s) = None"

fun py_number :: "pyval \<Rightarrow> pyfloat option" where
  \<comment> \<open>the number a value stands for in an order comparison with a numeric literal; \<open>None\<close>
      where Python raises \<^verbatim>\<open>TypeError\<close>\<close>
  "py_number (PInt i) = Some (Finite (of_int i))"
| "py_number (PFloat r) = Some (Finite r)"
| "py_number (PBool b) = Some (Finite (if b then 1 else 0))"
| "py_number PNaN = Some NaN"
| "py_number (PInf b) = Some (Infinity b)"
| "py_number PNone = None"
| "py_number (PStr s) = None"

fun num_le :: "real \<Rightarrow> pyfloat \<Rightarrow> bool" where
  \<comment> \<open>\<^verbatim>\<open>c <= x\<close> (and \<^verbatim>\<open>x >= c\<close>): every comparison with NaN is false\<close>
  "num_le c (Finite r) = (c \<le> r)"
| "num_le c NaN = False"
| "num_le c (Infinity b) = b"

fun num_lt :: "pyfloat \<Rightarrow> real \<Rightarrow> bool" where
  \<comment> \<open>\<^verbatim>\<open>x < c\<close>\<close>
  "num_lt (Finite r) c = (r < c)"
| "num_lt NaN c = False"
| "num_lt (Infinity b) c = (\<not> b)"

fun num_gt :: "pyfloat \<Rightarrow> real \<Rightarrow> bool" where
  \<comment> \<open>\<^verbatim>\<open>x > c\<close>\<close>
  "num_gt (Finite r) c = (c < r)"
| "num_gt NaN c = False"
| "num_gt (Infinity b) c = b"

fun py_eq_int :: "pyval \<Rightarrow> int \<Rightarrow> bool" where
  \<comment> \<open>\<^verbatim>\<open>v == n\<close> for an integer literal \<open>n\<close>\<close>
  "py_eq_int (PInt i) n = (i = n)"
| "py_eq_int (PFloat r) n = (r = of_int n)"
| "py_eq_int (PBool b) n = ((if b then 1 else 0) = n)"
| "py_eq_int PNaN n = False"
| "py_eq_int (PInf b) n = False"
| "py_eq_int PNone n = False"
| "py_eq_int (PStr s) n = False"

definition round_half_even :: "real \<Rightarrow> int" where
  "round_half_even x =
     (let f = \<lfloor>x\<rfloor>; d = x - of_int f in
      if d < 1 / 2 then f else if 1 / 2 < d then f + 1 else if even f then f else f + 1)"

definition py_round2 :: "real \<Rightarrow> real" where
  \<comment> \<open>\<^verbatim>\<open>round(x, 2)\<close>: to two decimals, ties to the even neighbour\<close>
  "py_round2 x = of_int (round_half_even (x * 100)) / 100"

section \<open>The predictor\<close>

text \<open>
  The fitted transform and the classifiers come from pickled artefacts that are not part of
  the repository. A classifier is modelled by what \<^verbatim>\<open>predictor.py\<close> asks of it: the
  positive-class probability of a scaled row (\<^verbatim>\<open>predict_proba(X)[0, 1]\<close>, which may raise),
  and the attributes probed with \<^verbatim>\<open>hasattr\<close>, each \<open>None\<close> when the attribute is absent.
\<close>

datatype estimator = Estimator
  (predict_proba: "real list \<Rightarrow> pyerror + real")
  (feature_importances: "real list option")
  (coef: "real list list option")
  (base_estimator: "estimator option")

record predictor =
  pipeline :: "(pyval list \<Rightarrow> pyerror + real list) option"
  models :: "estimator pydict"
  feature_columns :: "string list"

definition models_loaded :: "predictor \<Rightarrow> bool" where
  \<comment> \<open>the negation of \<^verbatim>\<open>not self.pipeline or not self.models\<close>\<close>
  "models_loaded P = (pipeline P \<noteq> None \<and> models P \<noteq> [])"

subsection \<open>\<^verbatim>\<open>Predictor.predict\<close>\<close>

definition fill_missing :: "string list \<Rightarrow> pyval pydict \<Rightarrow> pyval pydict" where
  \<comment> \<open>lines 34-36: every required column absent from \<open>temp_input\<close> is set to 0\<close>
  "fill_missing fcs temp_input =
     fold (\<lambda>feature t. if map_of t feature = None then AList.update feature (PInt 0) t else t)
       fcs temp_input"

definition select_columns :: "string list \<Rightarrow> pyval pydict \<Rightarrow> pyerror + pyval list" where
  \<comment> \<open>\<^verbatim>\<open>input_df[self.feature_columns]\<close>: the row in column order, \<^verbatim>\<open>KeyError\<close> on a
      missing column\<close>
  "select_columns fcs t =
     (if list_all (\<lambda>f. map_of t f \<noteq> None) fcs
      then Inr (map (\<lambda>f. dict_get t f PNone) fcs) else Inl KeyError)"

definition normalize_input :: "string list \<Rightarrow> pyval pydict \<Rightarrow> pyerror + pyval list" where
  \<comment> \<open>lines 31-39: \<open>X_input\<close>\<close>
  "normalize_input fcs input_data = select_columns fcs (fill_missing fcs (lower_keys input_data))"

fun score_models :: "estimator pydict \<Rightarrow> real list \<Rightarrow> real pydict \<Rightarrow> pyerror + real pydict" where
  \<comment> \<open>lines 42-45\<close>
  "score_models [] X_scaled predictions = Inr predictions"
| "score_models ((model_name, model) # ms) X_scaled predictions =
     (case predict_proba model X_scaled of
        Inl e \<Rightarrow> Inl e
      | Inr prob \<Rightarrow>
          score_models ms X_scaled (AList.update (model_name @ ''_score'') prob predictions))"

definition predict :: "predictor \<Rightarrow> pyval pydict \<Rightarrow> pyerror + real pydict" where
  "predict P input_data =
     (case pipeline P of
        None \<Rightarrow> Inl ModelsNotLoaded
      | Some transform \<Rightarrow>
          if models P = [] then Inl ModelsNotLoaded
          else
            (case normalize_input (feature_columns P) input_data of
               Inl e \<Rightarrow> Inl e
             | Inr X_input \<Rightarrow>
                 (case transform X_input of
                    Inl e \<Rightarrow> Inl e
                  | Inr X_scaled \<Rightarrow> score_models (models P) X_scaled [])))"

subsection \<open>\<^verbatim>\<open>Predictor.get_condition_impact\<close>\<close>

definition condition_fields :: "string list" where
  "condition_fields =
     [''sp_chf'', ''sp_diabetes'', ''sp_chrnkidn'', ''sp_cncr'', ''sp_copd'',
      ''sp_depressn'', ''sp_ischmcht'', ''sp_strketia'', ''sp_alzhdmta'',
      ''sp_osteoprs'', ''sp_ra_oa'']"

definition condition_name_map :: "string pydict" where
  "condition_name_map =
     [(''sp_chf'', ''Heart Failure''),
      (''sp_diabetes'', ''Diabetes''),
      (''sp_chrnkidn'', ''Kidney Disease''),
      (''sp_cncr'', ''Cancer''),
      (''sp_copd'', ''COPD''),
      (''sp_depressn'', ''Depression''),
      (''sp_ischmcht'', ''Ischemic Heart''),
      (''sp_strketia'', ''Stroke/TIA''),
      (''sp_alzhdmta'', ''Dementia''),
      (''sp_osteoprs'', ''Osteoporosis''),
      (''sp_ra_oa'', ''Arthritis'')]"

definition clean_name :: "string \<Rightarrow> string" where
  \<comment> \<open>\<^verbatim>\<open>condition_name_map.get(condition, condition)\<close>\<close>
  "clean_name condition = dict_get condition_name_map condition condition"

definition has_condition :: "pyval pydict \<Rightarrow> string \<Rightarrow> bool" where
  \<comment> \<open>\<^verbatim>\<open>patient_data.get(cond) == 1\<close>\<close>
  "has_condition patient_data cond =
     (case map_of patient_data cond of Some v \<Rightarrow> py_eq_int v 1 | None \<Rightarrow> False)"

definition patient_conditions :: "pyval pydict \<Rightarrow> string list" where
  \<comment> \<open>line 66\<close>
  "patient_conditions patient_data = filter (has_condition patient_data) condition_fields"

definition abs_first_row :: "real list list \<Rightarrow> pyerror + real list option" where
  \<comment> \<open>\<^verbatim>\<open>np.abs(coef_[0])\<close>\<close>
  "abs_first_row rows = (case rows of [] \<Rightarrow> Inl IndexError | r # _ \<Rightarrow> Inr (Some (map abs r)))"

definition resolve_importances :: "estimator \<Rightarrow> pyerror + real list option" where
  \<comment> \<open>lines 94-106; \<open>Inr None\<close> is \<^verbatim>\<open>importances = None\<close>\<close>
  "resolve_importances model =
     (case feature_importances model of
        Some fi \<Rightarrow> Inr (Some fi)
      | None \<Rightarrow>
          (case coef model of
             Some rows \<Rightarrow> abs_first_row rows
           | None \<Rightarrow>
               (case base_estimator model of
                  Some b \<Rightarrow>
                    (case feature_importances b of
                       Some fi \<Rightarrow> Inr (Some fi)
                     | None \<Rightarrow>
                         (case coef b of
                            Some rows \<Rightarrow> abs_first_row rows
                          | None \<Rightarrow> Inr None))
                | None \<Rightarrow> Inr None)))"

definition total_importance :: "real pydict \<Rightarrow> string list \<Rightarrow> real" where
  \<comment> \<open>line 111\<close>
  "total_importance importance_dict conds =
     sum_list (map (\<lambda>cond. dict_get importance_dict cond 0) conds)"

fun weighted_impacts :: "real pydict \<Rightarrow> real \<Rightarrow> string list \<Rightarrow> real pydict \<Rightarrow> real pydict" where
  \<comment> \<open>the loop of lines 114-120; \<open>tci\<close> is \<^verbatim>\<open>total_condition_importance\<close>\<close>
  "weighted_impacts importance_dict tci [] impacts = impacts"
| "weighted_impacts importance_dict tci (condition # cs) impacts =
     (let condition_importance = dict_get importance_dict condition 0;
          relative_impact = condition_importance / tci * 100
      in weighted_impacts importance_dict tci cs
           (if 0 < relative_impact
            then AList.update (clean_name condition) (py_round2 relative_impact) impacts
            else impacts))"

fun fallback_impacts :: "nat \<Rightarrow> string list \<Rightarrow> real pydict \<Rightarrow> real pydict" where
  \<comment> \<open>the loop of lines 126-128\<close>
  "fallback_impacts num_conditions [] impacts = impacts"
| "fallback_impacts num_conditions (condition # cs) impacts =
     fallback_impacts num_conditions cs
       (AList.update (clean_name condition) (py_round2 (100 / real num_conditions)) impacts)"

definition impacts_from_weights :: "string list \<Rightarrow> real list option \<Rightarrow> string list \<Rightarrow> real pydict" where
  \<comment> \<open>lines 108-120\<close>
  "impacts_from_weights fcs importances conds =
     (case importances of
        None \<Rightarrow> []
      | Some imps \<Rightarrow>
          if fcs = [] then []
          else
            (let importance_dict = dict_of_items (zip fcs imps);
                 total_condition_importance = total_importance importance_dict conds
             in if 0 < total_condition_importance
                then weighted_impacts importance_dict total_condition_importance conds []
                else []))"

definition with_fallback :: "string list \<Rightarrow> real pydict \<Rightarrow> real pydict" where
  \<comment> \<open>lines 123-128\<close>
  "with_fallback conds impacts =
     (if impacts = [] \<and> conds \<noteq> [] then fallback_impacts (length conds) conds impacts
      else impacts)"

definition get_condition_impact :: "predictor \<Rightarrow> pyval pydict \<Rightarrow> pyerror + real pydict" where
  "get_condition_impact P patient_data =
     (if \<not> models_loaded P then Inr []
      else
        (case predict P patient_data of
           Inl e \<Rightarrow> Inl e
         | Inr base_predictions \<Rightarrow>
             (let conds = patient_conditions patient_data in
              if conds = [] then Inr []
              else
                (case map_of (models P) ''mortality'' of
                   None \<Rightarrow> Inr []
                 | Some model \<Rightarrow>
                     (case resolve_importances model of
                        Inl e \<Rightarrow> Inl e
                      | Inr importances \<Rightarrow>
                          Inr (with_fallback conds
                                 (impacts_from_weights (feature_columns P) importances conds)))))))"

section \<open>Persistence\<close>

text \<open>
  The database is reached through \<^verbatim>\<open>get_db_connection\<close>; its schema is not part of the
  repository. Each of the two tables is modelled as a finite map from the text of
  \<^verbatim>\<open>desynpuf_id\<close> to the row: the patient's name, and the analysis row as a dictionary from
  column name to value. A connection that cannot be opened raises; every statement runs in one
  transaction that is committed at the end, so a failure leaves the tables as they were.
\<close>

record db =
  reachable :: bool
  patients :: "string \<rightharpoonup> pyval"
  patient_analysis :: "string \<rightharpoonup> pyval pydict"

definition columns :: "string list" where
  "columns =
     [''desynpuf_id'', ''age'', ''gender_male'', ''race_white'', ''race_black'',
      ''chronic_condition_count'', ''high_impact_conditions'', ''sp_chf'', ''sp_diabetes'',
      ''sp_chrnkidn'', ''sp_cncr'', ''sp_copd'', ''sp_depressn'', ''sp_ischmcht'',
      ''sp_strketia'', ''sp_alzhdmta'', ''sp_osteoprs'', ''sp_ra_oa'',
      ''inpatient_admissions'', ''inpatient_days'', ''outpatient_visits'',
      ''total_medicare_costs'', ''prior_hospitalization'', ''risk_30d_hospitalization'',
      ''risk_60d_hospitalization'', ''risk_90d_hospitalization'', ''mortality_risk'',
      ''hospitalization_30d_score'', ''hospitalization_60d_score'',
      ''hospitalization_90d_score'', ''mortality_score'', ''risk_tier'', ''risk_tier_label'',
      ''care_intervention'', ''annual_intervention_cost'', ''cost_savings'',
      ''prevented_hospitalizations'']"

definition upsert_patient :: "db \<Rightarrow> string \<Rightarrow> pyval \<Rightarrow> db" where
  \<comment> \<open>lines 238-242: \<^verbatim>\<open>UPDATE patients SET name\<close> when the row exists, \<^verbatim>\<open>INSERT\<close> otherwise\<close>
  "upsert_patient d patient_id patient_name =
     (case patients d patient_id of
        Some old \<Rightarrow> d\<lparr>patients := (patients d)(patient_id \<mapsto> patient_name)\<rparr>
      | None \<Rightarrow> d\<lparr>patients := (patients d)(patient_id \<mapsto> patient_name)\<rparr>)"

definition upsert_analysis :: "db \<Rightarrow> string \<Rightarrow> pyval pydict \<Rightarrow> db" where
  \<comment> \<open>lines 256-267: \<^verbatim>\<open>UPDATE\<close> of every column but the key when the row exists,
      \<^verbatim>\<open>INSERT\<close> of all columns otherwise\<close>
  "upsert_analysis d patient_id db_data =
     (case patient_analysis d patient_id of
        Some row \<Rightarrow>
          (let update_cols = filter (\<lambda>col. col \<noteq> ''desynpuf_id'') columns;
               row' = dict_merge row (map (\<lambda>col. (col, dict_get db_data col PNone)) update_cols)
           in d\<lparr>patient_analysis := (patient_analysis d)(patient_id \<mapsto> row')\<rparr>)
      | None \<Rightarrow>
          (let row' = map (\<lambda>col. (col, dict_get db_data col PNone)) columns
           in d\<lparr>patient_analysis := (patient_analysis d)(patient_id \<mapsto> row')\<rparr>))"

definition store_prediction_results :: "pyrt \<Rightarrow> db \<Rightarrow> pyval pydict \<Rightarrow> (pyerror + unit) \<times> db" where
  "store_prediction_results rt d all_data =
     (if \<not> reachable d then (Inl DbError, d)
      else
        (let db_data = lower_keys all_data;
             patient_id = py_str rt (dict_get db_data ''desynpuf_id'' PNone);
             patient_name = dict_get db_data ''name'' PNone;
             d1 = (if py_truthy patient_name \<and> patient_id \<noteq> []
                   then upsert_patient d patient_id patient_name else d)
         in (Inr (), upsert_analysis d1 patient_id db_data)))"

section \<open>\<^verbatim>\<open>process_uploaded_data\<close>\<close>

fun coerce_value :: "pyrt \<Rightarrow> pyval \<Rightarrow> pyerror + pyval" where
  \<comment> \<open>lines 156-159: a string of digits goes through \<^verbatim>\<open>int(value)\<close>, whose \<^verbatim>\<open>ValueError\<close> is
      not caught; anything else through \<^verbatim>\<open>float(value)\<close>, and stays as it is when that raises
      \<^verbatim>\<open>ValueError\<close> or \<^verbatim>\<open>TypeError\<close>\<close>
  "coerce_value rt (PStr s) =
     (if str_isdigit rt s
      then (case parse_int rt s of Some i \<Rightarrow> Inr (PInt i) | None \<Rightarrow> Inl ValueError)
      else (case parse_float rt s of Some x \<Rightarrow> Inr (float_val x) | None \<Rightarrow> Inr (PStr s)))"
| "coerce_value rt (PInt i) = Inr (PFloat (of_int i))"
| "coerce_value rt (PFloat r) = Inr (PFloat r)"
| "coerce_value rt PNaN = Inr PNaN"
| "coerce_value rt (PInf b) = Inr (PInf b)"
| "coerce_value rt (PBool b) = Inr (PFloat (if b then 1 else 0))"
| "coerce_value rt PNone = Inr PNone"

fun coerce_form :: "pyrt \<Rightarrow> pyval pydict \<Rightarrow> pyval pydict \<Rightarrow> pyerror + pyval pydict" where
  \<comment> \<open>the loop of lines 154-159\<close>
  "coerce_form rt [] processed_data = Inr processed_data"
| "coerce_form rt ((key, v) # items) processed_data =
     (if startswith (upper key) ''SP_'' then coerce_form rt items processed_data
      else (case coerce_value rt v of
              Inl e \<Rightarrow> Inl e
            | Inr v' \<Rightarrow> coerce_form rt items (AList.update key v' processed_data)))"

definition condition_fields_upper :: "string list" where
  "condition_fields_upper =
     [''SP_CHF'', ''SP_DIABETES'', ''SP_CHRNKIDN'', ''SP_CNCR'', ''SP_COPD'', ''SP_DEPRESSN'',
      ''SP_ISCHMCHT'', ''SP_STRKETIA'', ''SP_ALZHDMTA'', ''SP_OSTEOPRS'', ''SP_RA_OA'']"

definition set_condition_flags :: "pyval pydict \<Rightarrow> pyval pydict \<Rightarrow> pyval pydict" where
  \<comment> \<open>lines 162-163\<close>
  "set_condition_flags form_data processed_data =
     fold (\<lambda>field acc. AList.update field (PInt (if map_of form_data field \<noteq> None then 1 else 0)) acc)
       condition_fields_upper processed_data"

definition high_impact_list :: "string list" where
  "high_impact_list = [''SP_CHF'', ''SP_CHRNKIDN'', ''SP_CNCR'', ''SP_COPD'']"

definition flag_value :: "pyval \<Rightarrow> int" where
  \<comment> \<open>the flags summed at line 171 are the integers 0 and 1 written at line 163\<close>
  "flag_value v = (case v of PInt i \<Rightarrow> i | PBool b \<Rightarrow> (if b then 1 else 0) | _ \<Rightarrow> 0)"

definition flag :: "bool \<Rightarrow> pyval" where
  \<comment> \<open>\<^verbatim>\<open>1 if b else 0\<close>\<close>
  "flag b = PInt (if b then 1 else 0)"

definition derive_features :: "pyval pydict \<Rightarrow> pyerror + pyval pydict" where
  \<comment> \<open>lines 165-174; an order comparison with a string or \<^verbatim>\<open>None\<close> raises \<^verbatim>\<open>TypeError\<close>\<close>
  "derive_features pd0 =
     (case py_number (dict_get pd0 ''age'' (PInt 0)) of
        None \<Rightarrow> Inl TypeError
      | Some age \<Rightarrow>
          (let pd1 = AList.update ''age_65_74'' (flag (num_le 65 age \<and> num_lt age 75)) pd0;
               pd2 = AList.update ''age_75_84'' (flag (num_le 75 age \<and> num_lt age 85)) pd1;
               pd3 = AList.update ''age_85_plus'' (flag (num_le 85 age)) pd2;
               pd4 = AList.update ''high_impact_conditions''
                       (PInt (sum_list (map (\<lambda>cond. flag_value (dict_get pd3 cond (PInt 0)))
                                          high_impact_list))) pd3
           in (case py_number (dict_get pd4 ''inpatient_admissions'' (PInt 0)) of
                 None \<Rightarrow> Inl TypeError
               | Some adm \<Rightarrow>
                   (let pd5 = AList.update ''prior_hospitalization'' (flag (num_gt adm 0)) pd4
                    in (case py_number (dict_get pd5 ''outpatient_visits'' (PInt 0)) of
                          None \<Rightarrow> Inl TypeError
                        | Some vis \<Rightarrow>
                            (let pd6 = AList.update ''frequent_ed_user'' (flag (num_gt vis 10)) pd5
                             in (case py_number (dict_get pd6 ''total_medicare_costs'' (PInt 0)) of
                                   None \<Rightarrow> Inl TypeError
                                 | Some cost \<Rightarrow>
                                     Inr (AList.update ''high_cost_patient''
                                            (flag (num_gt cost 20000)) pd6))))))))"

definition build_features :: "pyrt \<Rightarrow> pyval pydict \<Rightarrow> pyerror + pyval pydict" where
  \<comment> \<open>lines 153-174: \<open>processed_data\<close>\<close>
  "build_features rt form_data =
     (case coerce_form rt form_data [] of
        Inl e \<Rightarrow> Inl e
      | Inr coerced \<Rightarrow> derive_features (set_condition_flags form_data coerced))"

definition score_value :: "real pydict \<Rightarrow> string \<Rightarrow> pyval" where
  \<comment> \<open>\<^verbatim>\<open>predictions.get(name)\<close>\<close>
  "score_value predictions name =
     (case map_of predictions name of Some prob \<Rightarrow> PFloat prob | None \<Rightarrow> PNone)"

definition db_predictions_of :: "real pydict \<Rightarrow> pyval pydict" where
  \<comment> \<open>lines 179-184\<close>
  "db_predictions_of predictions =
     [(''hospitalization_30d_score'', score_value predictions ''30d_hospitalization_score''),
      (''hospitalization_60d_score'', score_value predictions ''60d_hospitalization_score''),
      (''hospitalization_90d_score'', score_value predictions ''90d_hospitalization_score''),
      (''mortality_score'', score_value predictions ''mortality_score'')]"

definition primary_risk_value :: "pyval pydict \<Rightarrow> pyval" where
  \<comment> \<open>line 186: \<^verbatim>\<open>db_predictions.get('hospitalization_30d_score') or 0\<close>\<close>
  "primary_risk_value db_predictions =
     (let v = dict_get db_predictions ''hospitalization_30d_score'' PNone
      in if py_truthy v then v else PInt 0)"

definition primary_risk_score :: "pyval pydict \<Rightarrow> real" where
  \<comment> \<open>the number compared at lines 187-190; the value is a probability or the integer 0\<close>
  "primary_risk_score db_predictions =
     (case py_num (primary_risk_value db_predictions) of Some p \<Rightarrow> p | None \<Rightarrow> 0)"

definition risk_tier_of :: "real \<Rightarrow> int" where
  \<comment> \<open>lines 187-191\<close>
  "risk_tier_of p =
     (if 85 / 100 \<le> p then 5
      else if 65 / 100 \<le> p then 4
      else if 40 / 100 \<le> p then 3
      else if 15 / 100 \<le> p then 2
      else 1)"

record tier_row =
  label :: string
  intervention :: string
  cost :: int
  rate :: real

definition tier_info :: "(int \<times> tier_row) list" where
  \<comment> \<open>lines 193-199\<close>
  "tier_info =
     [(1, \<lparr>label = ''Low Risk'', intervention = ''Preventive Care'', cost = 200, rate = 2 / 100\<rparr>),
      (2, \<lparr>label = ''Low-Moderate Risk'', intervention = ''Enhanced Wellness'', cost = 300,
           rate = 5 / 100\<rparr>),
      (3, \<lparr>label = ''Moderate Risk'', intervention = ''Care Coordination'', cost = 600,
           rate = 15 / 100\<rparr>),
      (4, \<lparr>label = ''High Risk'', intervention = ''Case Management'', cost = 800,
           rate = 25 / 100\<rparr>),
      (5, \<lparr>label = ''Critical Risk'', intervention = ''Intensive Management'', cost = 1000,
           rate = 35 / 100\<rparr>)]"

definition avg_preventable_cost :: real where
  "avg_preventable_cost = 10000"

definition final_results_of :: "pyval pydict \<Rightarrow> real pydict \<Rightarrow> pyerror + pyval pydict" where
  \<comment> \<open>lines 179-219; \<^verbatim>\<open>tier_info[risk_tier]\<close> raises \<^verbatim>\<open>KeyError\<close> on a missing tier\<close>
  "final_results_of processed_data predictions =
     (let db_predictions = db_predictions_of predictions;
          p = primary_risk_score db_predictions;
          risk_tier = risk_tier_of p
      in (case map_of tier_info risk_tier of
            None \<Rightarrow> Inl KeyError
          | Some row \<Rightarrow>
              (let prevention_rate = rate row;
                   prevented_hospitalizations = p * prevention_rate;
                   cost_savings = prevented_hospitalizations * avg_preventable_cost
               in Inr (dict_merge (dict_merge processed_data db_predictions)
                    [(''risk_tier'', PInt risk_tier),
                     (''risk_tier_label'', PStr (label row)),
                     (''care_intervention'', PStr (intervention row)),
                     (''annual_intervention_cost'', PInt (cost row)),
                     (''prevented_hospitalizations'', PFloat prevented_hospitalizations),
                     (''cost_savings'', PFloat cost_savings),
                     (''risk_30d_hospitalization'', primary_risk_value db_predictions),
                     (''risk_60d_hospitalization'',
                        dict_get db_predictions ''hospitalization_60d_score'' PNone),
                     (''risk_90d_hospitalization'',
                        dict_get db_predictions ''hospitalization_90d_score'' PNone),
                     (''mortality_risk'', dict_get db_predictions ''mortality_score'' PNone)]))))"

definition process_uploaded_data ::
  "pyrt \<Rightarrow> predictor \<Rightarrow> db \<Rightarrow> pyval pydict \<Rightarrow> (pyerror + pyval pydict) \<times> db" where
  \<comment> \<open>the database is threaded through: the state after the call is the second component\<close>
  "process_uploaded_data rt P d form_data =
     (case build_features rt form_data of
        Inl e \<Rightarrow> (Inl e, d)
      | Inr processed_data \<Rightarrow>
          (case predict P (lower_keys processed_data) of
             Inl e \<Rightarrow> (Inl e, d)
           | Inr predictions \<Rightarrow>
               (case final_results_of processed_data predictions of
                  Inl e \<Rightarrow> (Inl e, d)
                | Inr final_results \<Rightarrow>
                    (case store_prediction_results rt d final_results of
                       (Inl e, d') \<Rightarrow> (Inl e, d')
                     | (Inr u, d') \<Rightarrow> (Inr final_results, d')))))"

section \<open>Sample inputs\<close>

text \<open>
  A loaded predictor with two classifiers of constant score, a reachable empty database and
  an intake form; they serve as concrete instances of the results below. The sample runtime
  reads ASCII digits as integers and knows two float literals.
\<close>

definition demo_rt :: pyrt where
  "demo_rt =
     \<lparr>str_isdigit = isdigit,
      parse_int = (\<lambda>s. if isdigit s then Some (int_of_digits s) else None),
      parse_float = (\<lambda>s. if s = ''70.5'' then Some (Finite (705 / 10))
                         else if s = ''nan'' then Some NaN else None),
      float_str = (\<lambda>r. ''0.0'')\<rparr>"

definition demo_estimator :: "real \<Rightarrow> real list option \<Rightarrow> estimator" where
  "demo_estimator prob fi = Estimator (\<lambda>X. Inr prob) fi None None"

definition demo_predictor :: predictor where
  "demo_predictor =
     \<lparr>pipeline = Some (\<lambda>X. Inr (map (\<lambda>v. case py_num v of Some r \<Rightarrow> r | None \<Rightarrow> 0) X)),
      models = [(''30d_hospitalization'', demo_estimator (85 / 100) None),
                (''mortality'', demo_estimator (1 / 10) (Some [3, 1, 5]))],
      feature_columns = [''sp_chf'', ''sp_diabetes'', ''age'']\<rparr>"

definition demo_db :: db where
  "demo_db = \<lparr>reachable = True, patients = Map.empty, patient_analysis = Map.empty\<rparr>"

definition demo_form :: "pyval pydict" where
  "demo_form = [(''desynpuf_id'', PStr ''A1''), (''name'', PStr ''Bob''), (''age'', PStr ''70''),
                (''SP_CHF'', PStr ''on'')]"

definition demo_result :: "pyval pydict" where
  "demo_result =
     [(''desynpuf_id'', PStr ''A1''), (''name'', PStr ''Bob''), (''age'', PInt 70),
      (''SP_CHF'', PInt 1), (''SP_DIABETES'', PInt 0), (''SP_CHRNKIDN'', PInt 0),
      (''SP_CNCR'', PInt 0), (''SP_COPD'', PInt 0), (''SP_DEPRESSN'', PInt 0),
      (''SP_ISCHMCHT'', PInt 0), (''SP_STRKETIA'', PInt 0), (''SP_ALZHDMTA'', PInt 0),
      (''SP_OSTEOPRS'', PInt 0), (''SP_RA_OA'', PInt 0), (''age_65_74'', PInt 1),
      (''age_75_84'', PInt 0), (''age_85_plus'', PInt 0), (''high_impact_conditions'', PInt 1),
      (''prior_hospitalization'', PInt 0), (''frequent_ed_user'', PInt 0),
      (''high_cost_patient'', PInt 0),
      (''hospitalization_30d_score'', PFloat (85 / 100)),
      (''hospitalization_60d_score'', PNone), (''hospitalization_90d_score'', PNone),
      (''mortality_score'', PFloat (1 / 10)), (''risk_tier'', PInt 5),
      (''risk_tier_label'', PStr ''Critical Risk''),
      (''care_intervention'', PStr ''Intensive Management''),
      (''annual_intervention_cost'', PInt 1000),
      (''prevented_hospitalizations'', PFloat (2975 / 10000)),
      (''cost_savings'', PFloat 2975),
      (''risk_30d_hospitalization'', PFloat (85 / 100)),
      (''risk_60d_hospitalization'', PNone), (''risk_90d_hospitalization'', PNone),
      (''mortality_risk'', PFloat (1 / 10))]"

definition demo_tree :: estimator where
  "demo_tree = Estimator (\<lambda>X. Inr (1 / 2)) (Some [1 / 4, 3 / 4]) (Some [[- 5, 5]]) None"

definition demo_linear :: estimator where
  "demo_linear = Estimator (\<lambda>X. Inr (1 / 2)) None (Some [[- 2, 3]]) None"

definition demo_wrapped_tree :: estimator where
  "demo_wrapped_tree = Estimator (\<lambda>X. Inr (1 / 2)) None None (Some demo_tree)"

definition demo_wrapped_linear :: estimator where
  "demo_wrapped_linear = Estimator (\<lambda>X. Inr (1 / 2)) None None (Some demo_linear)"

definition demo_opaque :: estimator where
  "demo_opaque = Estimator (\<lambda>X. Inr (1 / 2)) None None None"

definition demo_record :: "pyval pydict" where
  "demo_record = [(''Age'', PInt 70), (''Extra'', PStr ''x'')]"

definition fallback_predictor :: predictor where
  "fallback_predictor =
     \<lparr>pipeline = Some (\<lambda>X. Inr []),
      models = [(''mortality'', demo_opaque)],
      feature_columns = [''sp_chf'', ''sp_diabetes'', ''sp_copd'']\<rparr>"

definition no_mortality_predictor :: predictor where
  "no_mortality_predictor =
     \<lparr>pipeline = Some (\<lambda>X. Inr []),
      models = [(''30d_hospitalization'', demo_opaque)],
      feature_columns = [''sp_chf'', ''sp_diabetes'', ''sp_copd'']\<rparr>"

definition two_conditions :: "pyval pydict" where
  "two_conditions = [(''sp_chf'', PInt 1), (''sp_diabetes'', PInt 1)]"

definition three_conditions :: "pyval pydict" where
  "three_conditions = [(''sp_chf'', PInt 1), (''sp_diabetes'', PInt 1), (''sp_copd'', PInt 1)]"

definition tiny_weight_predictor :: predictor where
  "tiny_weight_predictor =
     \<lparr>pipeline = Some (\<lambda>X. Inr []),
      models = [(''mortality'', Estimator (\<lambda>X. Inr (1 / 2)) (Some [1, 99999]) None None)],
      feature_columns = [''sp_chf'', ''sp_diabetes'']\<rparr>"

definition mixed_record :: "pyval pydict" where
  "mixed_record =
     [(''SP_CHF'', PInt 1), (''sp_diabetes'', PStr ''1''), (''sp_copd'', PInt 2),
      (''sp_cncr'', PInt 1)]"

definition lowercase_form :: "pyval pydict" where
  "lowercase_form = [(''sp_chf'', PStr ''1'')]"

definition uppercase_form :: "pyval pydict" where
  "uppercase_form = [(''SP_CHF'', PStr ''0'')]"

definition nan_form :: "pyval pydict" where
  "nan_form = [(''age'', PStr ''nan'')]"

definition nan_result :: "pyval pydict" where
  "nan_result =
     [(''age'', PNaN), (''SP_CHF'', PInt 0), (''SP_DIABETES'', PInt 0),
      (''SP_CHRNKIDN'', PInt 0), (''SP_CNCR'', PInt 0), (''SP_COPD'', PInt 0),
      (''SP_DEPRESSN'', PInt 0), (''SP_ISCHMCHT'', PInt 0), (''SP_STRKETIA'', PInt 0),
      (''SP_ALZHDMTA'', PInt 0), (''SP_OSTEOPRS'', PInt 0), (''SP_RA_OA'', PInt 0),
      (''age_65_74'', PInt 0), (''age_75_84'', PInt 0), (''age_85_plus'', PInt 0),
      (''high_impact_conditions'', PInt 0), (''prior_hospitalization'', PInt 0),
      (''frequent_ed_user'', PInt 0), (''high_cost_patient'', PInt 0),
      (''hospitalization_30d_score'', PFloat (85 / 100)),
      (''hospitalization_60d_score'', PNone), (''hospitalization_90d_score'', PNone),
      (''mortality_score'', PFloat (1 / 10)), (''risk_tier'', PInt 5),
      (''risk_tier_label'', PStr ''Critical Risk''),
      (''care_intervention'', PStr ''Intensive Management''),
      (''annual_intervention_cost'', PInt 1000),
      (''prevented_hospitalizations'', PFloat (2975 / 10000)),
      (''cost_savings'', PFloat 2975),
      (''risk_30d_hospitalization'', PFloat (85 / 100)),
      (''risk_60d_hospitalization'', PNone), (''risk_90d_hospitalization'', PNone),
      (''mortality_risk'', PFloat (1 / 10))]"

definition priority_predictor :: "estimator \<Rightarrow> predictor" where
  "priority_predictor m =
     \<lparr>pipeline = Some (\<lambda>X. Inr []),
      models = [(''mortality'', m)],
      feature_columns = [''sp_chf'', ''sp_diabetes'']\<rparr>"

section \<open>Auxiliary facts about dictionaries and the pipeline\<close>

lemma map_of_dict_merge:
  "map_of (dict_merge a b) k = (case map_of (rev b) k of Some v \<Rightarrow> Some v | None \<Rightarrow> map_of a k)"
proof (induction b arbitrary: a)
  case Nil
  show ?case by (simp add: dict_merge_def)
next
  case (Cons x xs)
  obtain k' v' where x: "x = (k', v')" by (cases x)
  have "dict_merge a (x # xs) = dict_merge (AList.update k' v' a) xs"
    by (simp add: dict_merge_def x)
  then show ?case
    using Cons.IH [of "AList.update k' v' a"]
    by (auto simp: x update_conv' map_add_def split: option.splits)
qed

lemma risk_tier_of_cases:
  "(risk_tier_of p = 5 \<longleftrightarrow> 85 / 100 \<le> p) \<and>
   (risk_tier_of p = 4 \<longleftrightarrow> 65 / 100 \<le> p \<and> p < 85 / 100) \<and>
   (risk_tier_of p = 3 \<longleftrightarrow> 40 / 100 \<le> p \<and> p < 65 / 100) \<and>
   (risk_tier_of p = 2 \<longleftrightarrow> 15 / 100 \<le> p \<and> p < 40 / 100) \<and>
   (risk_tier_of p = 1 \<longleftrightarrow> p < 15 / 100)"
  by (simp add: risk_tier_of_def)

lemma tier_info_total: "\<exists>row. map_of tier_info (risk_tier_of p) = Some row"
  by (simp add: risk_tier_of_def tier_info_def)

lemma primary_risk_score_eq:
  "primary_risk_score (db_predictions_of preds) =
     (case map_of preds ''30d_hospitalization_score'' of Some r \<Rightarrow> r | None \<Rightarrow> 0)"
  by (simp add: primary_risk_score_def primary_risk_value_def db_predictions_of_def
      score_value_def dict_get_def Let_def split: option.splits)

lemma process_uploaded_data_Inr:
  assumes "fst (process_uploaded_data rt P d form_data) = Inr res"
  shows "\<exists>pd preds. build_features rt form_data = Inr pd \<and>
           predict P (lower_keys pd) = Inr preds \<and> final_results_of pd preds = Inr res"
  using assms
  by (auto simp: process_uploaded_data_def split: sum.splits prod.splits)

lemma final_results_fields:
  assumes "final_results_of pd preds = Inr res"
  defines "p \<equiv> primary_risk_score (db_predictions_of preds)"
  shows "\<exists>row. map_of tier_info (risk_tier_of p) = Some row \<and>
     map_of res ''risk_tier'' = Some (PInt (risk_tier_of p)) \<and>
     map_of res ''risk_tier_label'' = Some (PStr (label row)) \<and>
     map_of res ''care_intervention'' = Some (PStr (intervention row)) \<and>
     map_of res ''annual_intervention_cost'' = Some (PInt (cost row)) \<and>
     map_of res ''prevented_hospitalizations'' = Some (PFloat (p * rate row)) \<and>
     map_of res ''cost_savings'' = Some (PFloat (p * rate row * 10000)) \<and>
     map_of res ''risk_30d_hospitalization'' = Some (primary_risk_value (db_predictions_of preds))"
  using assms
  by (auto simp: final_results_of_def Let_def map_of_dict_merge avg_preventable_cost_def
      split: option.splits)


lemma map_of_coerce_form:
  assumes "coerce_form rt items acc = Inr pd" and "\<not> startswith (upper k) ''SP_''"
  shows "(case map_of (rev items) k of
            None \<Rightarrow> map_of pd k = map_of acc k
          | Some v \<Rightarrow> (\<exists>v'. coerce_value rt v = Inr v' \<and> map_of pd k = Some v'))"
  using assms
proof (induction items arbitrary: acc)
  case Nil
  then show ?case by simp
next
  case (Cons x xs)
  obtain k' v' where x: "x = (k', v')" by (cases x)
  show ?case
  proof (cases "startswith (upper k') ''SP_''")
    case True
    then have ne: "k' \<noteq> k" using Cons.prems(2) by auto
    from True Cons.prems(1) have "coerce_form rt xs acc = Inr pd" by (simp add: x)
    from Cons.IH [OF this Cons.prems(2)] ne show ?thesis
      by (auto simp: x map_add_def split: option.splits)
  next
    case False
    with Cons.prems(1) obtain w where
      w: "coerce_value rt v' = Inr w" and
      r: "coerce_form rt xs (AList.update k' w acc) = Inr pd"
      by (auto simp: x split: sum.splits)
    from Cons.IH [OF r Cons.prems(2)] w show ?thesis
      by (auto simp: x map_add_def update_conv' split: option.splits)
  qed
qed

lemma map_of_set_condition_flags:
  "map_of (set_condition_flags form_data pd) k =
     (if k \<in> set condition_fields_upper
      then Some (PInt (if map_of form_data k \<noteq> None then 1 else 0))
      else map_of pd k)"
proof -
  have "map_of (fold (\<lambda>field acc. AList.update field (PInt (if map_of form_data field \<noteq> None then 1 else 0)) acc) fs pd) k =
     (if k \<in> set fs then Some (PInt (if map_of form_data k \<noteq> None then 1 else 0)) else map_of pd k)" for fs
    by (induction fs arbitrary: pd) (auto simp: update_conv')
  then show ?thesis by (simp add: set_condition_flags_def)
qed

lemma derive_features_age:
  assumes "derive_features pd0 = Inr pd"
  shows "\<exists>age. py_number (dict_get pd0 ''age'' (PInt 0)) = Some age \<and>
     map_of pd ''age_65_74'' = Some (flag (num_le 65 age \<and> num_lt age 75)) \<and>
     map_of pd ''age_75_84'' = Some (flag (num_le 75 age \<and> num_lt age 85)) \<and>
     map_of pd ''age_85_plus'' = Some (flag (num_le 85 age))"
  using assms
  by (auto simp: derive_features_def Let_def update_conv' split: option.splits)

lemma final_results_passthrough:
  assumes "final_results_of pd preds = Inr res"
    and "k \<in> {''age_65_74'', ''age_75_84'', ''age_85_plus''}"
  shows "map_of res k = map_of pd k"
  using assms
  by (auto simp: final_results_of_def Let_def map_of_dict_merge db_predictions_of_def
      split: option.splits)

lemma map_of_rev_distinct: "distinct (map fst xs) \<Longrightarrow> map_of (rev xs) = map_of xs"
  by (rule map_of_inject_set [THEN iffD2]) (simp_all add: distinct_rev rev_map [symmetric])

lemma demo_run:
  "fst (process_uploaded_data demo_rt demo_predictor demo_db demo_form) = Inr demo_result"
  by code_simp

section \<open>Risk tier\<close>

text \<open>
  C1. Whenever \<^verbatim>\<open>process_uploaded_data\<close> returns a result, its risk tier is derived from the
  30-day hospitalization score \<open>p\<close> (taken as 0 when the predictor gave none): tier 5 iff
  \<open>p \<ge> 0.85\<close>, tier 4 iff \<open>0.65 \<le> p < 0.85\<close>, tier 3 iff \<open>0.40 \<le> p < 0.65\<close>, tier 2 iff
  \<open>0.15 \<le> p < 0.40\<close>, tier 1 iff \<open>p < 0.15\<close>; label, intervention, annual cost and prevention
  rate are those of the tier's row of the five-row policy table; a missing score gives tier 1
  and a reported 30-day risk of 0.
\<close>

theorem tier_classification:
  assumes "fst (process_uploaded_data rt P d form_data) = Inr res"
  shows "\<exists>pd preds p t lbl iv c r.
     build_features rt form_data = Inr pd \<and>
     predict P (lower_keys pd) = Inr preds \<and>
     p = (case map_of preds ''30d_hospitalization_score'' of Some s \<Rightarrow> s | None \<Rightarrow> 0) \<and>
     map_of res ''risk_tier'' = Some (PInt t) \<and>
     (t = 5 \<longleftrightarrow> 85 / 100 \<le> p) \<and>
     (t = 4 \<longleftrightarrow> 65 / 100 \<le> p \<and> p < 85 / 100) \<and>
     (t = 3 \<longleftrightarrow> 40 / 100 \<le> p \<and> p < 65 / 100) \<and>
     (t = 2 \<longleftrightarrow> 15 / 100 \<le> p \<and> p < 40 / 100) \<and>
     (t = 1 \<longleftrightarrow> p < 15 / 100) \<and>
     (t, lbl, iv, c, r) \<in>
       {(1, ''Low Risk'', ''Preventive Care'', 200, 2 / 100),
        (2, ''Low-Moderate Risk'', ''Enhanced Wellness'', 300, 5 / 100),
        (3, ''Moderate Risk'', ''Care Coordination'', 600, 15 / 100),
        (4, ''High Risk'', ''Case Management'', 800, 25 / 100),
        (5, ''Critical Risk'', ''Intensive Management'', 1000, 35 / 100)} \<and>
     map_of res ''risk_tier_label'' = Some (PStr lbl) \<and>
     map_of res ''care_intervention'' = Some (PStr iv) \<and>
     map_of res ''annual_intervention_cost'' = Some (PInt c) \<and>
     map_of res ''prevented_hospitalizations'' = Some (PFloat (p * r)) \<and>
     (map_of preds ''30d_hospitalization_score'' = None \<longrightarrow>
        t = 1 \<and> map_of res ''risk_30d_hospitalization'' = Some (PInt 0))"
proof -
  from process_uploaded_data_Inr [OF assms] obtain pd preds where
    b: "build_features rt form_data = Inr pd" and
    pr: "predict P (lower_keys pd) = Inr preds" and
    f: "final_results_of pd preds = Inr res" by blast
  define p where "p = (case map_of preds ''30d_hospitalization_score'' of Some s \<Rightarrow> s | None \<Rightarrow> (0::real))"
  have pp: "primary_risk_score (db_predictions_of preds) = p"
    by (simp add: p_def primary_risk_score_eq)
  from final_results_fields [OF f] obtain row where
    row: "map_of tier_info (risk_tier_of p) = Some row" and
    r1: "map_of res ''risk_tier'' = Some (PInt (risk_tier_of p))" and
    r2: "map_of res ''risk_tier_label'' = Some (PStr (label row))" and
    r3: "map_of res ''care_intervention'' = Some (PStr (intervention row))" and
    r4: "map_of res ''annual_intervention_cost'' = Some (PInt (cost row))" and
    r5: "map_of res ''prevented_hospitalizations'' = Some (PFloat (p * rate row))" and
    r6: "map_of res ''risk_30d_hospitalization'' = Some (primary_risk_value (db_predictions_of preds))"
    unfolding pp by blast
  have tbl: "(risk_tier_of p, label row, intervention row, cost row, rate row) \<in>
       {(1, ''Low Risk'', ''Preventive Care'', 200, 2 / 100),
        (2, ''Low-Moderate Risk'', ''Enhanced Wellness'', 300, 5 / 100),
        (3, ''Moderate Risk'', ''Care Coordination'', 600, 15 / 100),
        (4, ''High Risk'', ''Case Management'', 800, 25 / 100),
        (5, ''Critical Risk'', ''Intensive Management'', 1000, 35 / 100)}"
    using row by (auto simp: risk_tier_of_def tier_info_def split: if_splits)
  have miss: "map_of preds ''30d_hospitalization_score'' = None \<longrightarrow>
        risk_tier_of p = 1 \<and> map_of res ''risk_30d_hospitalization'' = Some (PInt 0)"
    using r6 by (simp add: p_def risk_tier_of_def primary_risk_value_def db_predictions_of_def
        score_value_def dict_get_def)
  note cases = risk_tier_of_cases [of p]
  show ?thesis
    apply (rule exI [of _ pd], rule exI [of _ preds], rule exI [of _ p])
    apply (rule exI [of _ "risk_tier_of p"], rule exI [of _ "label row"])
    apply (rule exI [of _ "intervention row"], rule exI [of _ "cost row"])
    apply (rule exI [of _ "rate row"])
    apply (intro conjI)
    apply (rule b, rule pr, rule p_def, rule r1)
    apply (simp_all only: cases tbl r2 r3 r4 r5)
    using miss cases apply simp
    done
qed


theorem tier_classification_witness:
  "fst (process_uploaded_data demo_rt demo_predictor demo_db demo_form) = Inr demo_result \<and>
   (\<exists>pd preds p t lbl iv c r.
     build_features demo_rt demo_form = Inr pd \<and>
     predict demo_predictor (lower_keys pd) = Inr preds \<and>
     p = (case map_of preds ''30d_hospitalization_score'' of Some s \<Rightarrow> s | None \<Rightarrow> 0) \<and>
     map_of demo_result ''risk_tier'' = Some (PInt t) \<and>
     (t = 5 \<longleftrightarrow> 85 / 100 \<le> p) \<and>
     (t = 4 \<longleftrightarrow> 65 / 100 \<le> p \<and> p < 85 / 100) \<and>
     (t = 3 \<longleftrightarrow> 40 / 100 \<le> p \<and> p < 65 / 100) \<and>
     (t = 2 \<longleftrightarrow> 15 / 100 \<le> p \<and> p < 40 / 100) \<and>
     (t = 1 \<longleftrightarrow> p < 15 / 100) \<and>
     (t, lbl, iv, c, r) \<in>
       {(1, ''Low Risk'', ''Preventive Care'', 200, 2 / 100),
        (2, ''Low-Moderate Risk'', ''Enhanced Wellness'', 300, 5 / 100),
        (3, ''Moderate Risk'', ''Care Coordination'', 600, 15 / 100),
        (4, ''High Risk'', ''Case Management'', 800, 25 / 100),
        (5, ''Critical Risk'', ''Intensive Management'', 1000, 35 / 100)} \<and>
     map_of demo_result ''risk_tier_label'' = Some (PStr lbl) \<and>
     map_of demo_result ''care_intervention'' = Some (PStr iv) \<and>
     map_of demo_result ''annual_intervention_cost'' = Some (PInt c) \<and>
     map_of demo_result ''prevented_hospitalizations'' = Some (PFloat (p * r)) \<and>
     (map_of preds ''30d_hospitalization_score'' = None \<longrightarrow>
        t = 1 \<and> map_of demo_result ''risk_30d_hospitalization'' = Some (PInt 0)))"
  by (rule conjI [OF demo_run tier_classification [OF demo_run]])

section \<open>Prevented hospitalizations and cost savings\<close>

text \<open>
  C6. Whenever \<^verbatim>\<open>process_uploaded_data\<close> returns a result, with \<open>p\<close> the 30-day
  hospitalization score and \<open>rate\<close> the prevention rate of the tier of \<open>p\<close>, the result holds
  \<open>prevented_hospitalizations = p * rate\<close> and
  \<open>cost_savings = prevented_hospitalizations * 10000 = p * rate * 10000\<close>.
\<close>

theorem cost_savings_formula:
  assumes "fst (process_uploaded_data rt P d form_data) = Inr res"
  shows "\<exists>pd preds p row prevented.
     build_features rt form_data = Inr pd \<and>
     predict P (lower_keys pd) = Inr preds \<and>
     p = (case map_of preds ''30d_hospitalization_score'' of Some s \<Rightarrow> s | None \<Rightarrow> 0) \<and>
     map_of tier_info (risk_tier_of p) = Some row \<and>
     prevented = p * rate row \<and>
     map_of res ''prevented_hospitalizations'' = Some (PFloat prevented) \<and>
     map_of res ''cost_savings'' = Some (PFloat (prevented * 10000)) \<and>
     prevented * 10000 = p * rate row * 10000"
proof -
  from process_uploaded_data_Inr [OF assms] obtain pd preds where
    b: "build_features rt form_data = Inr pd" and
    pr: "predict P (lower_keys pd) = Inr preds" and
    f: "final_results_of pd preds = Inr res" by blast
  define p where "p = (case map_of preds ''30d_hospitalization_score'' of Some s \<Rightarrow> s | None \<Rightarrow> (0::real))"
  have pp: "primary_risk_score (db_predictions_of preds) = p"
    by (simp add: p_def primary_risk_score_eq)
  from final_results_fields [OF f] obtain row where
    row: "map_of tier_info (risk_tier_of p) = Some row" and
    r5: "map_of res ''prevented_hospitalizations'' = Some (PFloat (p * rate row))" and
    r6: "map_of res ''cost_savings'' = Some (PFloat (p * rate row * 10000))"
    unfolding pp by blast
  show ?thesis
    apply (rule exI [of _ pd], rule exI [of _ preds], rule exI [of _ p])
    apply (rule exI [of _ row], rule exI [of _ "p * rate row"])
    apply (intro conjI)
    apply (rule b, rule pr, rule p_def, rule row, rule refl, rule r5, rule r6, rule refl)
    done
qed

theorem cost_savings_formula_witness:
  "fst (process_uploaded_data demo_rt demo_predictor demo_db demo_form) = Inr demo_result \<and>
   (\<exists>pd preds p row prevented.
     build_features demo_rt demo_form = Inr pd \<and>
     predict demo_predictor (lower_keys pd) = Inr preds \<and>
     p = (case map_of preds ''30d_hospitalization_score'' of Some s \<Rightarrow> s | None \<Rightarrow> 0) \<and>
     map_of tier_info (risk_tier_of p) = Some row \<and>
     prevented = p * rate row \<and>
     map_of demo_result ''prevented_hospitalizations'' = Some (PFloat prevented) \<and>
     map_of demo_result ''cost_savings'' = Some (PFloat (prevented * 10000)) \<and>
     prevented * 10000 = p * rate row * 10000)"
  by (rule conjI [OF demo_run cost_savings_formula [OF demo_run]])

section \<open>Age bands\<close>

text \<open>
  C7, as the code has it. Whenever \<^verbatim>\<open>process_uploaded_data\<close> returns a result for a form
  with age \<open>age\<close> (the coerced \<^verbatim>\<open>age\<close> field, 0 when the form has none), the three age-band
  flags of the result are 0 or 1 and at most one of them is set. For a finite age,
  \<open>age_65_74 = 1\<close> iff \<open>65 \<le> age < 75\<close>, \<open>age_75_84 = 1\<close> iff \<open>75 \<le> age < 85\<close>,
  \<open>age_85_plus = 1\<close> iff \<open>age \<ge> 85\<close>, and all three are 0 iff \<open>age < 65\<close>; \<^verbatim>\<open>+inf\<close> sets
  \<open>age_85_plus\<close> alone and \<^verbatim>\<open>-inf\<close> sets none. A NaN age, which the form field \<^verbatim>\<open>nan\<close>
  produces, leaves all three flags 0 although \<open>age < 65\<close> is false for it.
\<close>

theorem age_band_flags:
  assumes "distinct (map fst form_data)"
    and "fst (process_uploaded_data rt P d form_data) = Inr res"
  shows "\<exists>v age a b c.
     (map_of form_data ''age'' = None \<and> v = PInt 0 \<or>
      (\<exists>raw. map_of form_data ''age'' = Some raw \<and> coerce_value rt raw = Inr v)) \<and>
     py_number v = Some age \<and>
     map_of res ''age_65_74'' = Some (PInt a) \<and>
     map_of res ''age_75_84'' = Some (PInt b) \<and>
     map_of res ''age_85_plus'' = Some (PInt c) \<and>
     (\<forall>r. age = Finite r \<longrightarrow>
        (a = 1 \<longleftrightarrow> 65 \<le> r \<and> r < 75) \<and> (a = 0 \<longleftrightarrow> \<not> (65 \<le> r \<and> r < 75)) \<and>
        (b = 1 \<longleftrightarrow> 75 \<le> r \<and> r < 85) \<and> (b = 0 \<longleftrightarrow> \<not> (75 \<le> r \<and> r < 85)) \<and>
        (c = 1 \<longleftrightarrow> 85 \<le> r) \<and> (c = 0 \<longleftrightarrow> r < 85) \<and>
        (a = 0 \<and> b = 0 \<and> c = 0 \<longleftrightarrow> r < 65)) \<and>
     (age = Infinity True \<longrightarrow> a = 0 \<and> b = 0 \<and> c = 1) \<and>
     (age = Infinity False \<longrightarrow> a = 0 \<and> b = 0 \<and> c = 0) \<and>
     (age = NaN \<longrightarrow> a = 0 \<and> b = 0 \<and> c = 0) \<and>
     a + b + c \<le> 1"
proof -
  from process_uploaded_data_Inr [OF assms(2)] obtain pd preds where
    b: "build_features rt form_data = Inr pd" and
    f: "final_results_of pd preds = Inr res" by blast
  from b obtain coerced where
    cf: "coerce_form rt form_data [] = Inr coerced" and
    d: "derive_features (set_condition_flags form_data coerced) = Inr pd"
    by (auto simp: build_features_def split: sum.splits)
  define pd0 where "pd0 = set_condition_flags form_data coerced"
  have nsp: "\<not> startswith (upper ''age'') ''SP_''"
    by (simp add: startswith_def upper_def upper_char_def)
  have flags: "map_of pd0 ''age'' = map_of coerced ''age''"
    by (simp add: pd0_def map_of_set_condition_flags condition_fields_upper_def)
  have src: "map_of form_data ''age'' = None \<and> dict_get pd0 ''age'' (PInt 0) = PInt 0 \<or>
      (\<exists>raw. map_of form_data ''age'' = Some raw \<and>
         coerce_value rt raw = Inr (dict_get pd0 ''age'' (PInt 0)))"
    using map_of_coerce_form [OF cf nsp]
    by (auto simp: map_of_rev_distinct [OF assms(1)] dict_get_def flags split: option.splits)
  from derive_features_age [OF d [folded pd0_def]] obtain age where
    a: "py_number (dict_get pd0 ''age'' (PInt 0)) = Some age" and
    f1: "map_of pd ''age_65_74'' = Some (flag (num_le 65 age \<and> num_lt age 75))" and
    f2: "map_of pd ''age_75_84'' = Some (flag (num_le 75 age \<and> num_lt age 85))" and
    f3: "map_of pd ''age_85_plus'' = Some (flag (num_le 85 age))" by blast
  let ?a = "if num_le 65 age \<and> num_lt age 75 then 1 else (0::int)"
  let ?b = "if num_le 75 age \<and> num_lt age 85 then 1 else (0::int)"
  let ?c = "if num_le 85 age then 1 else (0::int)"
  have r1: "map_of res ''age_65_74'' = Some (PInt ?a)"
    using final_results_passthrough [OF f, of "''age_65_74''"] f1 by (simp add: flag_def)
  have r2: "map_of res ''age_75_84'' = Some (PInt ?b)"
    using final_results_passthrough [OF f, of "''age_75_84''"] f2 by (simp add: flag_def)
  have r3: "map_of res ''age_85_plus'' = Some (PInt ?c)"
    using final_results_passthrough [OF f, of "''age_85_plus''"] f3 by (simp add: flag_def)
  show ?thesis
    apply (rule exI [of _ "dict_get pd0 ''age'' (PInt 0)"])
    apply (rule exI [of _ age])
    apply (rule exI [of _ ?a], rule exI [of _ ?b], rule exI [of _ ?c])
    apply (intro conjI)
    apply (rule src, rule a, rule r1, rule r2, rule r3)
    apply (cases age; simp)
    apply (cases age; simp)
    apply (cases age; simp)
    apply (cases age; simp)
    apply (cases age; simp)
    done
qed

theorem age_band_flags_witness:
  "distinct (map fst demo_form) \<and>
   fst (process_uploaded_data demo_rt demo_predictor demo_db demo_form) = Inr demo_result \<and>
   (\<exists>v age a b c.
     (map_of demo_form ''age'' = None \<and> v = PInt 0 \<or>
      (\<exists>raw. map_of demo_form ''age'' = Some raw \<and> coerce_value demo_rt raw = Inr v)) \<and>
     py_number v = Some age \<and>
     map_of demo_result ''age_65_74'' = Some (PInt a) \<and>
     map_of demo_result ''age_75_84'' = Some (PInt b) \<and>
     map_of demo_result ''age_85_plus'' = Some (PInt c) \<and>
     (\<forall>r. age = Finite r \<longrightarrow>
        (a = 1 \<longleftrightarrow> 65 \<le> r \<and> r < 75) \<and> (a = 0 \<longleftrightarrow> \<not> (65 \<le> r \<and> r < 75)) \<and>
        (b = 1 \<longleftrightarrow> 75 \<le> r \<and> r < 85) \<and> (b = 0 \<longleftrightarrow> \<not> (75 \<le> r \<and> r < 85)) \<and>
        (c = 1 \<longleftrightarrow> 85 \<le> r) \<and> (c = 0 \<longleftrightarrow> r < 85) \<and>
        (a = 0 \<and> b = 0 \<and> c = 0 \<longleftrightarrow> r < 65)) \<and>
     (age = Infinity True \<longrightarrow> a = 0 \<and> b = 0 \<and> c = 1) \<and>
     (age = Infinity False \<longrightarrow> a = 0 \<and> b = 0 \<and> c = 0) \<and>
     (age = NaN \<longrightarrow> a = 0 \<and> b = 0 \<and> c = 0) \<and>
     a + b + c \<le> 1)"
proof -
  have dist: "distinct (map fst demo_form)"
    by (simp add: demo_form_def)
  show ?thesis
    by (intro conjI dist demo_run age_band_flags [OF dist demo_run])
qed

theorem age_band_flags_counterexample:
  "fst (process_uploaded_data demo_rt demo_predictor demo_db nan_form) = Inr nan_result \<and>
   coerce_value demo_rt (PStr ''nan'') = Inr PNaN \<and>
   py_number PNaN = Some NaN \<and> \<not> num_lt NaN 65 \<and>
   map_of nan_result ''age'' = Some PNaN \<and>
   map_of nan_result ''age_65_74'' = Some (PInt 0) \<and>
   map_of nan_result ''age_75_84'' = Some (PInt 0) \<and>
   map_of nan_result ''age_85_plus'' = Some (PInt 0)"
  by code_simp

section \<open>Normalization of the input record\<close>

lemma map_of_lower_keys:
  "map_of (lower_keys d) k = map_of (rev (map (\<lambda>(k, v). (lower k, v)) d)) k"
  by (simp add: lower_keys_def dict_of_items_def map_of_dict_merge split: option.splits)

lemma map_of_fill_missing:
  "map_of (fill_missing fcs t) k =
     (case map_of t k of Some v \<Rightarrow> Some v | None \<Rightarrow> if k \<in> set fcs then Some (PInt 0) else None)"
  unfolding fill_missing_def
  by (induction fcs arbitrary: t) (auto simp: update_conv' split: option.splits)

lemma normalize_input_eq:
  "normalize_input fcs input_data =
     Inr (map (\<lambda>f. dict_get (lower_keys input_data) f (PInt 0)) fcs)"
  by (auto simp: normalize_input_def select_columns_def list_all_iff map_of_fill_missing
      dict_get_def split: option.splits)

lemma lower_keys_absent:
  "f \<notin> lower ` fst ` set d \<Longrightarrow> map_of (lower_keys d) f = None"
  by (force simp: map_of_lower_keys map_of_eq_None_iff)

lemma lower_keys_present:
  assumes "distinct (map (\<lambda>kv. lower (fst kv)) d)" and "(k, v) \<in> set d"
  shows "map_of (lower_keys d) (lower k) = Some v"
proof -
  let ?xs = "map (\<lambda>(k, v). (lower k, v)) d"
  have m: "map fst ?xs = map (\<lambda>kv. lower (fst kv)) d"
    by (simp add: case_prod_beta)
  have "distinct (map fst ?xs)" using assms(1) by (simp only: m)
  moreover have "(lower k, v) \<in> set ?xs" using assms(2) by force
  ultimately show ?thesis
    by (simp add: map_of_lower_keys map_of_rev_distinct)
qed

lemma lower_keys_extra:
  "lower k \<noteq> f \<Longrightarrow> map_of (lower_keys (d @ [(k, v)])) f = map_of (lower_keys d) f"
  by (simp add: map_of_lower_keys)

lemma score_models_total:
  "(\<forall>nm \<in> set ms. \<exists>pr. predict_proba (snd nm) X = Inr pr) \<Longrightarrow>
   \<exists>preds. score_models ms X acc = Inr preds"
  by (induction ms X acc rule: score_models.induct) auto

text \<open>
  C8. For every input record, normalization does not raise: it yields the row \<open>X\<close> of the
  required columns in order; a required name that no input key matches after lowercasing has
  value 0; with keys that stay distinct after lowercasing, a required name matched by an input
  key has that key's value; an extra input field whose lowercased key is not required leaves
  the row unchanged; and a loaded predictor passes \<open>X\<close> on to the transform and the
  classifiers, so that prediction returns scores whenever these succeed.
\<close>

theorem missing_features_default_to_zero:
  "\<exists>X. normalize_input fcs input_data = Inr X \<and> length X = length fcs \<and>
     (\<forall>i < length fcs. fcs ! i \<notin> lower ` fst ` set input_data \<longrightarrow> X ! i = PInt 0) \<and>
     (\<forall>i < length fcs. distinct (map (\<lambda>kv. lower (fst kv)) input_data) \<and>
        (k, v) \<in> set input_data \<and> lower k = fcs ! i \<longrightarrow> X ! i = v) \<and>
     (lower k' \<notin> set fcs \<longrightarrow> normalize_input fcs (input_data @ [(k', v')]) = Inr X) \<and>
     (pipeline P = Some transform \<and> models P \<noteq> [] \<and> feature_columns P = fcs \<longrightarrow>
        predict P input_data =
          (case transform X of Inl e \<Rightarrow> Inl e
           | Inr X_scaled \<Rightarrow> score_models (models P) X_scaled [])) \<and>
     (pipeline P = Some transform \<and> models P \<noteq> [] \<and> feature_columns P = fcs \<and>
      transform X = Inr Xs \<and> (\<forall>nm \<in> set (models P). \<exists>pr. predict_proba (snd nm) Xs = Inr pr)
        \<longrightarrow> (\<exists>preds. predict P input_data = Inr preds))"
proof -
  let ?X = "map (\<lambda>f. dict_get (lower_keys input_data) f (PInt 0)) fcs"
  have 1: "normalize_input fcs input_data = Inr ?X" by (rule normalize_input_eq)
  have 2: "\<forall>i < length fcs. fcs ! i \<notin> lower ` fst ` set input_data \<longrightarrow> ?X ! i = PInt 0"
    by (simp add: dict_get_def lower_keys_absent)
  have 3: "\<forall>i < length fcs. distinct (map (\<lambda>kv. lower (fst kv)) input_data) \<and>
        (k, v) \<in> set input_data \<and> lower k = fcs ! i \<longrightarrow> ?X ! i = v"
    using lower_keys_present [of input_data k v] by (auto simp: dict_get_def)
  have 4: "lower k' \<notin> set fcs \<longrightarrow> normalize_input fcs (input_data @ [(k', v')]) = Inr ?X"
  proof
    assume a: "lower k' \<notin> set fcs"
    have "dict_get (lower_keys (input_data @ [(k', v')])) f (PInt 0) =
          dict_get (lower_keys input_data) f (PInt 0)" if "f \<in> set fcs" for f
    proof -
      from that a have "lower k' \<noteq> f" by blast
      then show ?thesis by (simp add: dict_get_def lower_keys_extra)
    qed
    then show "normalize_input fcs (input_data @ [(k', v')]) = Inr ?X"
      by (simp add: normalize_input_eq)
  qed
  have 5: "pipeline P = Some transform \<and> models P \<noteq> [] \<and> feature_columns P = fcs \<longrightarrow>
        predict P input_data =
          (case transform ?X of Inl e \<Rightarrow> Inl e
           | Inr X_scaled \<Rightarrow> score_models (models P) X_scaled [])"
    by (auto simp: predict_def 1)
  have 6: "pipeline P = Some transform \<and> models P \<noteq> [] \<and> feature_columns P = fcs \<and>
      transform ?X = Inr Xs \<and> (\<forall>nm \<in> set (models P). \<exists>pr. predict_proba (snd nm) Xs = Inr pr)
        \<longrightarrow> (\<exists>preds. predict P input_data = Inr preds)"
    using score_models_total [of "models P" Xs "[]"] by (auto simp: predict_def 1)
  show ?thesis
    apply (rule exI [of _ ?X])
    apply (intro conjI)
    apply (rule 1, simp, rule 2, rule 3, rule 4, rule 5, rule 6)
    done
qed

theorem missing_features_default_to_zero_witness:
  "normalize_input (feature_columns demo_predictor) demo_record = Inr [PInt 0, PInt 0, PInt 70]"
proof -
  let ?fcs = "feature_columns demo_predictor"
  from missing_features_default_to_zero
    [of ?fcs demo_record "''Age''" "PInt 70" "''Extra''" "PStr ''x''" demo_predictor "\<lambda>X. Inr []" "[]"]
  obtain X where
    n: "normalize_input ?fcs demo_record = Inr X" and
    l: "length X = length ?fcs" and
    z: "\<forall>i < length ?fcs. ?fcs ! i \<notin> lower ` fst ` set demo_record \<longrightarrow> X ! i = PInt 0" and
    p: "\<forall>i < length ?fcs. distinct (map (\<lambda>kv. lower (fst kv)) demo_record) \<and>
        (''Age'', PInt 70) \<in> set demo_record \<and> lower ''Age'' = ?fcs ! i \<longrightarrow> X ! i = PInt 70"
    by blast
  have x0: "X ! 0 = PInt 0"
    using z [rule_format, of 0]
    by (simp add: demo_predictor_def demo_record_def lower_def lower_char_def)
  have x1: "X ! 1 = PInt 0"
    using z [rule_format, of 1]
    by (simp add: demo_predictor_def demo_record_def lower_def lower_char_def)
  have x2: "X ! 2 = PInt 70"
    using p [rule_format, of 2]
    by (simp add: demo_predictor_def demo_record_def lower_def lower_char_def)
  have "length X = 3" using l by (simp add: demo_predictor_def)
  then have "X = [X ! 0, X ! 1, X ! 2]"
    by (cases X; simp; rename_tac a x; case_tac x; simp; rename_tac b y; case_tac y; simp)
  then show ?thesis using n x0 x1 x2 by simp
qed

section \<open>Condition attribution\<close>

lemma update_fresh: "k \<notin> fst ` set al \<Longrightarrow> AList.update k v al = al @ [(k, v)]"
  by (induction al) auto

lemma distinct_clean_names: "distinct (map clean_name condition_fields)"
  by (simp add: condition_fields_def clean_name_def condition_name_map_def dict_get_def)

lemma clean_names:
  "map clean_name condition_fields =
     [''Heart Failure'', ''Diabetes'', ''Kidney Disease'', ''Cancer'', ''COPD'', ''Depression'',
      ''Ischemic Heart'', ''Stroke/TIA'', ''Dementia'', ''Osteoporosis'', ''Arthritis'']"
  by (simp add: condition_fields_def clean_name_def condition_name_map_def dict_get_def)

lemma distinct_patient_condition_names: "distinct (map clean_name (patient_conditions pd))"
  unfolding patient_conditions_def by (rule distinct_map_filter) (rule distinct_clean_names)

lemma length_patient_conditions: "length (patient_conditions pd) \<le> 11"
proof -
  have "length (patient_conditions pd) \<le> length condition_fields"
    unfolding patient_conditions_def by (rule length_filter_le)
  then show ?thesis by (simp add: condition_fields_def)
qed

lemma set_patient_conditions:
  "set (patient_conditions pd) = {c \<in> set condition_fields. has_condition pd c}"
  by (simp add: patient_conditions_def)

lemma fallback_impacts_append:
  assumes "distinct (map clean_name cs)" and "clean_name ` set cs \<inter> fst ` set acc = {}"
  shows "fallback_impacts n cs acc =
           acc @ map (\<lambda>c. (clean_name c, py_round2 (100 / real n))) cs"
  using assms
proof (induction cs arbitrary: acc)
  case Nil
  show ?case by simp
next
  case (Cons c cs)
  have fresh: "clean_name c \<notin> fst ` set acc" using Cons.prems(2) by auto
  have upd: "AList.update (clean_name c) (py_round2 (100 / real n)) acc =
             acc @ [(clean_name c, py_round2 (100 / real n))]"
    by (rule update_fresh [OF fresh])
  have "clean_name ` set cs \<inter> fst ` set (acc @ [(clean_name c, py_round2 (100 / real n))]) = {}"
    using Cons.prems by auto
  moreover have "distinct (map clean_name cs)" using Cons.prems(1) by simp
  ultimately show ?case
    using Cons.IH [of "acc @ [(clean_name c, py_round2 (100 / real n))]"] by (simp add: upd)
qed

lemma equal_share_sum:
  assumes "1 \<le> n" and "n \<le> 11"
  shows "\<bar>real n * py_round2 (100 / real n) - 100\<bar> \<le> 3 / 100 \<and>
         (real n * py_round2 (100 / real n) = 100 \<longleftrightarrow> n \<in> {1, 2, 4, 5, 8, 10})"
proof -
  have e: "py_round2 (100 / real 1) = 100" "py_round2 (100 / real 2) = 50"
     "py_round2 (100 / real 3) = 3333 / 100" "py_round2 (100 / real 4) = 25"
     "py_round2 (100 / real 5) = 20" "py_round2 (100 / real 6) = 1667 / 100"
     "py_round2 (100 / real 7) = 1429 / 100" "py_round2 (100 / real 8) = 125 / 10"
     "py_round2 (100 / real 9) = 1111 / 100" "py_round2 (100 / real 10) = 10"
     "py_round2 (100 / real 11) = 909 / 100"
    by (simp_all add: py_round2_def round_half_even_def Let_def)
  from assms have "n \<in> {1, 2, 3, 4, 5, 6, 7, 8, 9, 10, 11}"
    by (simp add: numeral_eq_Suc le_Suc_eq)
  then show ?thesis
    by (elim insertE emptyE; hypsubst; simp only: e; simp)
qed

lemma get_condition_impact_eq:
  assumes "models_loaded P" and "predict P pd = Inr bp"
    and "map_of (models P) ''mortality'' = Some model"
    and "resolve_importances model = Inr imps"
    and "patient_conditions pd \<noteq> []"
  shows "get_condition_impact P pd =
           Inr (with_fallback (patient_conditions pd)
                  (impacts_from_weights (feature_columns P) imps (patient_conditions pd)))"
  using assms by (simp add: get_condition_impact_def Let_def)

lemma two_conditions_present: "patient_conditions two_conditions = [''sp_chf'', ''sp_diabetes'']"
  by (simp add: patient_conditions_def condition_fields_def has_condition_def two_conditions_def)

lemma priority_predictor_ready:
  assumes "predict_proba m [] = Inr pr"
  shows "models_loaded (priority_predictor m)"
    and "predict (priority_predictor m) two_conditions = Inr [(''mortality_score'', pr)]"
    and "patient_conditions two_conditions \<noteq> []"
    and "map_of (models (priority_predictor m)) ''mortality'' = Some m"
  using assms
  by (simp_all add: models_loaded_def priority_predictor_def predict_def normalize_input_eq
      two_conditions_present)

subsection \<open>Source of the feature weights\<close>

text \<open>
  C5. For a loaded predictor with a mortality classifier, a record with a present condition
  and a successful base prediction, \<^verbatim>\<open>get_condition_impact\<close> takes the feature weights in this
  priority and computes the impact map from them: the classifier's own per-feature importance
  scores when it exposes them; otherwise the absolute values of the first row of its linear
  coefficients; otherwise the same two checks on its wrapped base estimator; when none of
  these is available the weights stay unresolved, nothing is derived from weights and the
  impact map is the uniform fallback.
\<close>

theorem importance_source_priority:
  assumes "models_loaded P" and "predict P pd = Inr bp" and "patient_conditions pd \<noteq> []"
    and "map_of (models P) ''mortality'' = Some m"
  shows
  "(feature_importances m = Some fi \<longrightarrow>
      resolve_importances m = Inr (Some fi) \<and>
      get_condition_impact P pd =
        Inr (with_fallback (patient_conditions pd)
               (impacts_from_weights (feature_columns P) (Some fi) (patient_conditions pd)))) \<and>
   (feature_importances m = None \<and> coef m = Some (row # rows) \<longrightarrow>
      resolve_importances m = Inr (Some (map abs row)) \<and>
      get_condition_impact P pd =
        Inr (with_fallback (patient_conditions pd)
               (impacts_from_weights (feature_columns P) (Some (map abs row))
                  (patient_conditions pd)))) \<and>
   (feature_importances m = None \<and> coef m = None \<and> base_estimator m = Some b \<and>
    feature_importances b = Some fi \<longrightarrow>
      resolve_importances m = Inr (Some fi) \<and>
      get_condition_impact P pd =
        Inr (with_fallback (patient_conditions pd)
               (impacts_from_weights (feature_columns P) (Some fi) (patient_conditions pd)))) \<and>
   (feature_importances m = None \<and> coef m = None \<and> base_estimator m = Some b \<and>
    feature_importances b = None \<and> coef b = Some (row # rows) \<longrightarrow>
      resolve_importances m = Inr (Some (map abs row)) \<and>
      get_condition_impact P pd =
        Inr (with_fallback (patient_conditions pd)
               (impacts_from_weights (feature_columns P) (Some (map abs row))
                  (patient_conditions pd)))) \<and>
   (feature_importances m = None \<and> coef m = None \<and>
    (base_estimator m = None \<or>
     base_estimator m = Some b \<and> feature_importances b = None \<and> coef b = None) \<longrightarrow>
      resolve_importances m = Inr None \<and>
      impacts_from_weights (feature_columns P) None (patient_conditions pd) = [] \<and>
      get_condition_impact P pd =
        Inr (fallback_impacts (length (patient_conditions pd)) (patient_conditions pd) []))"
proof -
  have g: "get_condition_impact P pd =
      Inr (with_fallback (patient_conditions pd)
             (impacts_from_weights (feature_columns P) imps (patient_conditions pd)))"
    if "resolve_importances m = Inr imps" for imps
    using get_condition_impact_eq [OF assms(1,2,4) that assms(3)] .
  have n: "with_fallback (patient_conditions pd)
             (impacts_from_weights (feature_columns P) None (patient_conditions pd)) =
           fallback_impacts (length (patient_conditions pd)) (patient_conditions pd) []"
    using assms(3) by (simp add: with_fallback_def impacts_from_weights_def)
  have 1: "feature_importances m = Some fi \<Longrightarrow> resolve_importances m = Inr (Some fi)"
    by (simp add: resolve_importances_def)
  have 2: "feature_importances m = None \<and> coef m = Some (row # rows) \<Longrightarrow>
      resolve_importances m = Inr (Some (map abs row))"
    by (simp add: resolve_importances_def abs_first_row_def)
  have 3: "feature_importances m = None \<and> coef m = None \<and> base_estimator m = Some b \<and>
    feature_importances b = Some fi \<Longrightarrow> resolve_importances m = Inr (Some fi)"
    by (simp add: resolve_importances_def)
  have 4: "feature_importances m = None \<and> coef m = None \<and> base_estimator m = Some b \<and>
    feature_importances b = None \<and> coef b = Some (row # rows) \<Longrightarrow>
      resolve_importances m = Inr (Some (map abs row))"
    by (simp add: resolve_importances_def abs_first_row_def)
  have 5: "feature_importances m = None \<and> coef m = None \<and>
    (base_estimator m = None \<or>
     base_estimator m = Some b \<and> feature_importances b = None \<and> coef b = None) \<Longrightarrow>
      resolve_importances m = Inr None"
    by (auto simp: resolve_importances_def)
  show ?thesis
    apply (intro conjI impI)
    apply (erule 1, drule 1, erule g)
    apply (erule 2, drule 2, erule g)
    apply (erule 3, drule 3, erule g)
    apply (erule 4, drule 4, erule g)
    apply (erule 5)
    apply (simp add: impacts_from_weights_def)
    apply (drule 5, drule g, simp only: n)
    done
qed

theorem importance_source_priority_witness:
  "get_condition_impact (priority_predictor demo_tree) two_conditions =
     Inr [(''Heart Failure'', 25), (''Diabetes'', 75)] \<and>
   get_condition_impact (priority_predictor demo_linear) two_conditions =
     Inr [(''Heart Failure'', 40), (''Diabetes'', 60)] \<and>
   get_condition_impact (priority_predictor demo_wrapped_tree) two_conditions =
     Inr [(''Heart Failure'', 25), (''Diabetes'', 75)] \<and>
   get_condition_impact (priority_predictor demo_wrapped_linear) two_conditions =
     Inr [(''Heart Failure'', 40), (''Diabetes'', 60)] \<and>
   get_condition_impact (priority_predictor demo_opaque) two_conditions =
     Inr [(''Heart Failure'', 50), (''Diabetes'', 50)]"
proof -
  let ?cs = "[''sp_chf'', ''sp_diabetes'']"
  have fc: "feature_columns (priority_predictor m) = ?cs" for m
    by (simp add: priority_predictor_def)
  have e1: "with_fallback ?cs (impacts_from_weights ?cs (Some [1 / 4, 3 / 4]) ?cs) =
              [(''Heart Failure'', 25), (''Diabetes'', 75)]"
    by code_simp
  have e2: "with_fallback ?cs (impacts_from_weights ?cs (Some (map abs [- 2, 3])) ?cs) =
              [(''Heart Failure'', 40), (''Diabetes'', 60)]"
    by code_simp
  have e3: "fallback_impacts (length ?cs) ?cs [] = [(''Heart Failure'', 50), (''Diabetes'', 50)]"
    by code_simp
  have p1: "predict_proba demo_tree [] = Inr (1 / 2)" by (simp add: demo_tree_def)
  have p2: "predict_proba demo_linear [] = Inr (1 / 2)" by (simp add: demo_linear_def)
  have p3: "predict_proba demo_wrapped_tree [] = Inr (1 / 2)" by (simp add: demo_wrapped_tree_def)
  have p4: "predict_proba demo_wrapped_linear [] = Inr (1 / 2)"
    by (simp add: demo_wrapped_linear_def)
  have p5: "predict_proba demo_opaque [] = Inr (1 / 2)" by (simp add: demo_opaque_def)
  have 1: "get_condition_impact (priority_predictor demo_tree) two_conditions =
     Inr [(''Heart Failure'', 25), (''Diabetes'', 75)]"
    using importance_source_priority [OF priority_predictor_ready [OF p1], of "[1 / 4, 3 / 4]"]
    by (simp add: demo_tree_def fc two_conditions_present e1)
  have 2: "get_condition_impact (priority_predictor demo_linear) two_conditions =
     Inr [(''Heart Failure'', 40), (''Diabetes'', 60)]"
    using importance_source_priority [OF priority_predictor_ready [OF p2], of _ "[- 2, 3]" "[]"]
      e2
    by (simp add: demo_linear_def fc two_conditions_present)
  have 3: "get_condition_impact (priority_predictor demo_wrapped_tree) two_conditions =
     Inr [(''Heart Failure'', 25), (''Diabetes'', 75)]"
    using importance_source_priority
      [OF priority_predictor_ready [OF p3], of "[1 / 4, 3 / 4]" _ _ demo_tree]
    by (simp add: demo_wrapped_tree_def demo_tree_def fc two_conditions_present e1)
  have 4: "get_condition_impact (priority_predictor demo_wrapped_linear) two_conditions =
     Inr [(''Heart Failure'', 40), (''Diabetes'', 60)]"
    using importance_source_priority
      [OF priority_predictor_ready [OF p4], of _ "[- 2, 3]" "[]" demo_linear] e2
    by (simp add: demo_wrapped_linear_def demo_linear_def fc two_conditions_present)
  have 5: "get_condition_impact (priority_predictor demo_opaque) two_conditions =
     Inr [(''Heart Failure'', 50), (''Diabetes'', 50)]"
    using importance_source_priority [OF priority_predictor_ready [OF p5]] e3
    by (simp add: demo_opaque_def fc two_conditions_present)
  from 1 2 3 4 5 show ?thesis by blast
qed

subsection \<open>Uniform fallback\<close>

text \<open>
  C3, as the code has it. Take a loaded predictor with a mortality model, a patient record
  on which the base prediction succeeds and that has \<open>n \<ge> 1\<close> present conditions, and no
  usable weights (none resolved, no feature columns, or a total weight of the present
  conditions that is not positive). Then the impact map has exactly one entry per present
  condition, each \<open>round(100 / n, 2)\<close>; it is non-empty, and its values sum to
  \<open>n * round(100 / n, 2)\<close>, which is within 0.03 of 100 and equal to 100 exactly when \<open>n\<close> is
  1, 2, 4, 5, 8 or 10. The sum is not 100 for three conditions (99.99). For a predictor
  without a mortality model and any record, every impact map that is returned is empty, and
  one is returned whenever the base prediction succeeds.
\<close>

theorem fallback_distribution:
  "(models_loaded P \<and> predict P pd = Inr bp \<and>
    map_of (models P) ''mortality'' = Some model \<and>
    resolve_importances model = Inr imps \<and>
    patient_conditions pd \<noteq> [] \<and>
    (imps = None \<or> feature_columns P = [] \<or>
     (\<exists>w. imps = Some w \<and>
        total_importance (dict_of_items (zip (feature_columns P) w)) (patient_conditions pd) \<le> 0))
    \<longrightarrow>
    (\<exists>impacts n share.
       n = length (patient_conditions pd) \<and> share = py_round2 (100 / real n) \<and>
       get_condition_impact P pd = Inr impacts \<and>
       impacts = map (\<lambda>c. (clean_name c, share)) (patient_conditions pd) \<and>
       impacts \<noteq> [] \<and> length impacts = n \<and>
       sum_list (map snd impacts) = real n * share \<and>
       \<bar>sum_list (map snd impacts) - 100\<bar> \<le> 3 / 100 \<and>
       (sum_list (map snd impacts) = 100 \<longleftrightarrow> n \<in> {1, 2, 4, 5, 8, 10}))) \<and>
   (map_of (models P) ''mortality'' = None \<longrightarrow>
      (\<forall>impacts'. get_condition_impact P pd = Inr impacts' \<longrightarrow> impacts' = []) \<and>
      (predict P pd = Inr bp \<longrightarrow> get_condition_impact P pd = Inr []))"
proof (intro conjI impI)
  assume h: "models_loaded P \<and> predict P pd = Inr bp \<and>
    map_of (models P) ''mortality'' = Some model \<and>
    resolve_importances model = Inr imps \<and>
    patient_conditions pd \<noteq> [] \<and>
    (imps = None \<or> feature_columns P = [] \<or>
     (\<exists>w. imps = Some w \<and>
        total_importance (dict_of_items (zip (feature_columns P) w)) (patient_conditions pd) \<le> 0))"
  then have a1: "models_loaded P" and a2: "predict P pd = Inr bp"
    and a3: "map_of (models P) ''mortality'' = Some model"
    and a4: "resolve_importances model = Inr imps"
    and a5: "patient_conditions pd \<noteq> []"
    and a6: "imps = None \<or> feature_columns P = [] \<or>
     (\<exists>w. imps = Some w \<and>
        total_importance (dict_of_items (zip (feature_columns P) w)) (patient_conditions pd) \<le> 0)"
    by blast+

  let ?conds = "patient_conditions pd"
  let ?n = "length ?conds"
  let ?share = "py_round2 (100 / real ?n)"
  let ?impacts = "map (\<lambda>c. (clean_name c, ?share)) ?conds"
  have w: "impacts_from_weights (feature_columns P) imps ?conds = []"
    using a6 by (auto simp: impacts_from_weights_def Let_def split: option.splits)
  have fb: "fallback_impacts ?n ?conds [] = ?impacts"
    using fallback_impacts_append [of ?conds "[]" ?n]
    by (simp add: distinct_patient_condition_names)
  have g: "get_condition_impact P pd = Inr ?impacts"
    using get_condition_impact_eq [OF a1 a2 a3 a4 a5] a5 by (simp add: w with_fallback_def fb)
  have s: "sum_list (map snd ?impacts) = real ?n * ?share"
    by (simp add: o_def sum_list_triv)
  have n1: "1 \<le> ?n" using a5 by (cases ?conds) simp_all
  note e = equal_share_sum [OF n1 length_patient_conditions]
  show "\<exists>impacts n share.
       n = length (patient_conditions pd) \<and> share = py_round2 (100 / real n) \<and>
       get_condition_impact P pd = Inr impacts \<and>
       impacts = map (\<lambda>c. (clean_name c, share)) (patient_conditions pd) \<and>
       impacts \<noteq> [] \<and> length impacts = n \<and>
       sum_list (map snd impacts) = real n * share \<and>
       \<bar>sum_list (map snd impacts) - 100\<bar> \<le> 3 / 100 \<and>
       (sum_list (map snd impacts) = 100 \<longleftrightarrow> n \<in> {1, 2, 4, 5, 8, 10})"
    apply (rule exI [of _ ?impacts], rule exI [of _ ?n], rule exI [of _ ?share])
    apply (intro conjI)
    apply (rule refl, rule refl, rule g, rule refl)
    using a5 apply simp
    apply simp
    apply (rule s)
    using e apply (simp only: s)
    using e apply (simp only: s)
    done
next
  assume "map_of (models P) ''mortality'' = None"
  then show "\<forall>impacts'. get_condition_impact P pd = Inr impacts' \<longrightarrow> impacts' = []"
    by (auto simp: get_condition_impact_def Let_def split: if_splits sum.splits)
next
  assume "map_of (models P) ''mortality'' = None" and "predict P pd = Inr bp"
  then show "get_condition_impact P pd = Inr []"
    by (simp add: get_condition_impact_def Let_def)
qed

theorem fallback_distribution_witness:
  "get_condition_impact fallback_predictor two_conditions =
     Inr [(''Heart Failure'', 50), (''Diabetes'', 50)] \<and>
   get_condition_impact no_mortality_predictor three_conditions = Inr []"
proof
  have hyp: "models_loaded fallback_predictor \<and>
      predict fallback_predictor two_conditions = Inr [(''mortality_score'', 1 / 2)] \<and>
      map_of (models fallback_predictor) ''mortality'' = Some demo_opaque \<and>
      resolve_importances demo_opaque = Inr None \<and>
      patient_conditions two_conditions \<noteq> [] \<and>
      (None = None \<or> feature_columns fallback_predictor = [] \<or>
       (\<exists>w. None = Some w \<and>
          total_importance (dict_of_items (zip (feature_columns fallback_predictor) w))
            (patient_conditions two_conditions) \<le> 0))"
    by (simp add: models_loaded_def fallback_predictor_def predict_def normalize_input_eq
        demo_opaque_def resolve_importances_def two_conditions_present)
  have sh: "py_round2 (100 / real 2) = 50"
    by (simp add: py_round2_def round_half_even_def Let_def)
  from fallback_distribution
         [of fallback_predictor two_conditions "[(''mortality_score'', 1 / 2)]" demo_opaque None,
          THEN conjunct1, THEN mp, OF hyp]
  show "get_condition_impact fallback_predictor two_conditions =
     Inr [(''Heart Failure'', 50), (''Diabetes'', 50)]"
    by (simp add: two_conditions_present sh clean_name_def condition_name_map_def dict_get_def)
next
  have none: "map_of (models no_mortality_predictor) ''mortality'' = None"
    by (simp add: no_mortality_predictor_def)
  have pr: "predict no_mortality_predictor three_conditions =
              Inr [(''30d_hospitalization_score'', 1 / 2)]"
    by (simp add: predict_def no_mortality_predictor_def normalize_input_eq demo_opaque_def)
  from fallback_distribution
         [of no_mortality_predictor three_conditions "[(''30d_hospitalization_score'', 1 / 2)]",
          THEN conjunct2, THEN mp, OF none, THEN conjunct2, THEN mp, OF pr]
  show "get_condition_impact no_mortality_predictor three_conditions = Inr []" .
qed

theorem fallback_distribution_counterexample:
  "get_condition_impact fallback_predictor three_conditions =
     Inr [(''Heart Failure'', 3333 / 100), (''Diabetes'', 3333 / 100), (''COPD'', 3333 / 100)] \<and>
   sum_list (map snd [(''Heart Failure'', 3333 / 100 :: real), (''Diabetes'', 3333 / 100),
                      (''COPD'', 3333 / 100)]) = 9999 / 100 \<and>
   patient_conditions three_conditions = [''sp_chf'', ''sp_diabetes'', ''sp_copd''] \<and>
   get_condition_impact no_mortality_predictor three_conditions = Inr []"
  by code_simp

subsection \<open>Weighted distribution\<close>

lemma weighted_impacts_other:
  "k \<notin> clean_name ` set cs \<Longrightarrow>
   map_of (weighted_impacts idict tci cs acc) k = map_of acc k"
  by (induction cs arbitrary: acc) (auto simp: Let_def update_conv')

lemma fallback_impacts_other:
  "k \<notin> clean_name ` set cs \<Longrightarrow> map_of (fallback_impacts n cs acc) k = map_of acc k"
  by (induction cs arbitrary: acc) (auto simp: update_conv')

lemma weighted_impacts_present:
  assumes "distinct (map clean_name cs)" and "c \<in> set cs"
  shows "map_of (weighted_impacts idict tci cs acc) (clean_name c) =
     (if 0 < dict_get idict c 0 / tci * 100
      then Some (py_round2 (dict_get idict c 0 / tci * 100))
      else map_of acc (clean_name c))"
  using assms
proof (induction cs arbitrary: acc)
  case Nil
  then show ?case by simp
next
  case (Cons x xs)
  let ?acc' = "if 0 < dict_get idict x 0 / tci * 100
     then AList.update (clean_name x) (py_round2 (dict_get idict x 0 / tci * 100)) acc else acc"
  have step: "weighted_impacts idict tci (x # xs) acc = weighted_impacts idict tci xs ?acc'"
    by (simp add: Let_def)
  show ?case
  proof (cases "c \<in> set xs")
    case True
    then have "clean_name c \<in> clean_name ` set xs" by (rule imageI)
    moreover have "clean_name x \<notin> clean_name ` set xs" using Cons.prems(1) by simp
    ultimately have ne: "clean_name c \<noteq> clean_name x" by metis
    have d: "distinct (map clean_name xs)" using Cons.prems(1) by simp
    show ?thesis
      unfolding step using Cons.IH [OF d True, of ?acc'] ne by (simp add: update_conv')
  next
    case False
    then have cx: "c = x" using Cons.prems(2) by simp
    have "clean_name x \<notin> clean_name ` set xs" using Cons.prems(1) by simp
    then show ?thesis
      unfolding step cx by (simp add: weighted_impacts_other update_conv')
  qed
qed

lemma sum_list_pos_ex:
  fixes f :: "'a \<Rightarrow> real"
  shows "0 < sum_list (map f cs) \<Longrightarrow> \<exists>c \<in> set cs. 0 < f c"
proof (induction cs)
  case Nil
  then show ?case by simp
next
  case (Cons a cs)
  show ?case
  proof (cases "0 < f a")
    case True
    then show ?thesis by simp
  next
    case False
    with Cons.prems have "0 < sum_list (map f cs)" by simp
    with Cons.IH show ?thesis by auto
  qed
qed

lemma impact_keys:
  assumes "map_of (with_fallback conds (impacts_from_weights fcs imps conds)) name = Some x"
  shows "name \<in> clean_name ` set conds"
proof (rule ccontr)
  assume n: "name \<notin> clean_name ` set conds"
  have "map_of (impacts_from_weights fcs imps conds) name = None"
    by (auto simp: impacts_from_weights_def Let_def weighted_impacts_other [OF n]
        split: option.splits)
  then have "map_of (with_fallback conds (impacts_from_weights fcs imps conds)) name = None"
    by (simp add: with_fallback_def fallback_impacts_other [OF n])
  with assms show False by simp
qed

lemma get_condition_impact_cases:
  assumes "get_condition_impact P pd = Inr impacts"
  shows "impacts = [] \<or>
     (\<exists>imps. impacts = with_fallback (patient_conditions pd)
                 (impacts_from_weights (feature_columns P) imps (patient_conditions pd)))"
  using assms
  by (auto simp: get_condition_impact_def Let_def split: if_splits sum.splits option.splits)

lemma clean_name_inj:
  assumes "c \<in> set condition_fields" and "c' \<in> set condition_fields"
    and "clean_name c = clean_name c'"
  shows "c = c'"
  using assms distinct_clean_names by (simp add: distinct_map inj_on_def)

text \<open>
  C4, as the code has it. Take a loaded predictor with a mortality model whose weights are
  resolved, at least one feature column, a patient record on which the base prediction
  succeeds, and a total weight \<open>tci\<close> of the present conditions that is positive. Then the
  impact map is non-empty; a present condition with positive weight is entered under its
  display name with \<open>round(100 * weight / tci, 2)\<close>, whatever that rounds to; a present
  condition whose weight is not positive has no entry; and no other key is in the map. An
  entry can have the value 0: with weights 1 and 99999 the first condition is kept with 0.0.
\<close>

theorem weighted_distribution:
  assumes "models_loaded P" and "predict P pd = Inr bp"
    and "map_of (models P) ''mortality'' = Some model"
    and "resolve_importances model = Inr (Some w)"
    and "feature_columns P \<noteq> []"
    and "0 < total_importance (dict_of_items (zip (feature_columns P) w)) (patient_conditions pd)"
  shows "\<exists>impacts idict tci.
     idict = dict_of_items (zip (feature_columns P) w) \<and>
     tci = total_importance idict (patient_conditions pd) \<and>
     get_condition_impact P pd = Inr impacts \<and> impacts \<noteq> [] \<and>
     (\<forall>c \<in> set (patient_conditions pd).
        map_of impacts (clean_name c) =
          (if 0 < dict_get idict c 0 then Some (py_round2 (100 * dict_get idict c 0 / tci))
           else None)) \<and>
     (\<forall>k. k \<notin> clean_name ` set (patient_conditions pd) \<longrightarrow> map_of impacts k = None) \<and>
     map clean_name condition_fields =
       [''Heart Failure'', ''Diabetes'', ''Kidney Disease'', ''Cancer'', ''COPD'',
        ''Depression'', ''Ischemic Heart'', ''Stroke/TIA'', ''Dementia'', ''Osteoporosis'',
        ''Arthritis'']"
proof -
  let ?conds = "patient_conditions pd"
  let ?idict = "dict_of_items (zip (feature_columns P) w)"
  let ?tci = "total_importance ?idict ?conds"
  let ?impacts = "weighted_impacts ?idict ?tci ?conds []"
  have ne: "?conds \<noteq> []"
    using assms(6) by (auto simp: total_importance_def)
  have iw: "impacts_from_weights (feature_columns P) (Some w) ?conds = ?impacts"
    using assms(5,6) by (simp add: impacts_from_weights_def Let_def)
  have entry: "map_of ?impacts (clean_name c) =
          (if 0 < dict_get ?idict c 0 then Some (py_round2 (100 * dict_get ?idict c 0 / ?tci))
           else None)" if "c \<in> set ?conds" for c
  proof -
    have pos: "(0 < dict_get ?idict c 0 / ?tci * 100) = (0 < dict_get ?idict c 0)"
      using assms(6) by (simp add: zero_less_divide_iff zero_less_mult_iff)
    have eq: "dict_get ?idict c 0 / ?tci * 100 = 100 * dict_get ?idict c 0 / ?tci"
      by simp
    have pres: "map_of ?impacts (clean_name c) =
       (if 0 < dict_get ?idict c 0 / ?tci * 100
        then Some (py_round2 (dict_get ?idict c 0 / ?tci * 100)) else None)"
      using weighted_impacts_present [OF distinct_patient_condition_names that, of ?idict ?tci "[]"]
      by simp
    show ?thesis
      unfolding pres pos unfolding eq by (rule refl)
  qed
  from assms(6) obtain c0 where c0: "c0 \<in> set ?conds" "0 < dict_get ?idict c0 0"
    unfolding total_importance_def using sum_list_pos_ex by blast
  have "map_of ?impacts (clean_name c0) \<noteq> None"
    using entry [OF c0(1)] c0(2) by simp
  then have nonempty: "?impacts \<noteq> []" by auto
  have g: "get_condition_impact P pd = Inr ?impacts"
    using get_condition_impact_eq [OF assms(1-4) ne] nonempty
    by (simp add: iw with_fallback_def)
  have other: "\<forall>k. k \<notin> clean_name ` set ?conds \<longrightarrow> map_of ?impacts k = None"
    by (simp add: weighted_impacts_other)
  show ?thesis
    apply (rule exI [of _ ?impacts], rule exI [of _ ?idict], rule exI [of _ ?tci])
    apply (intro conjI ballI)
    apply (rule refl, rule refl, rule g, rule nonempty)
    apply (erule entry)
    apply (rule other)
    apply (rule clean_names)
    done
qed

theorem weighted_distribution_witness:
  "\<exists>impacts. get_condition_impact demo_predictor two_conditions = Inr impacts \<and>
     map_of impacts ''Heart Failure'' = Some 75 \<and> map_of impacts ''Diabetes'' = Some 25 \<and>
     (\<forall>k. k \<notin> {''Heart Failure'', ''Diabetes''} \<longrightarrow> map_of impacts k = None)"
proof -
  have 1: "models_loaded demo_predictor"
    by (simp add: models_loaded_def demo_predictor_def)
  have 2: "predict demo_predictor two_conditions =
             Inr [(''30d_hospitalization_score'', 85 / 100), (''mortality_score'', 1 / 10)]"
    by (simp add: predict_def demo_predictor_def normalize_input_eq demo_estimator_def)
  have 3: "map_of (models demo_predictor) ''mortality'' = Some (demo_estimator (1 / 10) (Some [3, 1, 5]))"
    by (simp add: demo_predictor_def)
  have 4: "resolve_importances (demo_estimator (1 / 10) (Some [3, 1, 5])) = Inr (Some [3, 1, 5])"
    by (simp add: resolve_importances_def demo_estimator_def)
  have 5: "feature_columns demo_predictor \<noteq> []"
    by (simp add: demo_predictor_def)
  have pc: "patient_conditions two_conditions = [''sp_chf'', ''sp_diabetes'']"
    by (simp add: patient_conditions_def condition_fields_def has_condition_def two_conditions_def)
  have idict: "dict_of_items (zip (feature_columns demo_predictor) [3, 1, 5 :: real]) =
     [(''sp_chf'', 3), (''sp_diabetes'', 1), (''age'', 5)]"
    by (simp add: demo_predictor_def dict_of_items_def dict_merge_def)
  have tci: "total_importance [(''sp_chf'', 3), (''sp_diabetes'', 1), (''age'', 5)]
               [''sp_chf'', ''sp_diabetes''] = 4"
    by (simp add: total_importance_def dict_get_def)
  have 6: "0 < total_importance (dict_of_items (zip (feature_columns demo_predictor) [3, 1, 5]))
             (patient_conditions two_conditions)"
    by (simp add: idict pc tci)
  have r: "py_round2 75 = 75" "py_round2 25 = 25"
    by (simp_all add: py_round2_def round_half_even_def Let_def)
  from weighted_distribution [OF 1 2 3 4 5 6] show ?thesis
    by (simp add: idict pc tci r clean_name_def condition_name_map_def dict_get_def) blast
qed

theorem weighted_distribution_counterexample:
  "get_condition_impact tiny_weight_predictor two_conditions =
     Inr [(''Heart Failure'', 0), (''Diabetes'', 100)] \<and>
   map_of [(''Heart Failure'', 0 :: real), (''Diabetes'', 100)] ''Heart Failure'' = Some 0"
  by code_simp

subsection \<open>Present conditions\<close>

text \<open>
  C10. A condition counts as present exactly when the record maps its lowercase code to a
  value that compares equal to the integer 1 (the integer 1, the float 1.0 or \<^verbatim>\<open>True\<close>); a
  string, the number 2 or no entry under the lowercase code make it absent. The present set is
  the conditions of the fixed list that pass this test; every key of a returned impact map is
  the display name of a present condition, an absent condition has no entry, and two records
  with the same present conditions get the same impact map.
\<close>

theorem condition_presence:
  "(has_condition pd c \<longleftrightarrow>
      map_of pd c \<in> {Some (PInt 1), Some (PFloat 1), Some (PBool True)}) \<and>
   (map_of pd c = Some (PStr s) \<longrightarrow> \<not> has_condition pd c) \<and>
   (map_of pd c = Some (PInt 2) \<longrightarrow> \<not> has_condition pd c) \<and>
   (map_of pd c = None \<longrightarrow> \<not> has_condition pd c) \<and>
   set (patient_conditions pd) = {c \<in> set condition_fields. has_condition pd c} \<and>
   (get_condition_impact P pd = Inr impacts \<and> map_of impacts name = Some x \<longrightarrow>
      (\<exists>c' \<in> set condition_fields. has_condition pd c' \<and> name = clean_name c')) \<and>
   (c \<in> set condition_fields \<and> \<not> has_condition pd c \<and> get_condition_impact P pd = Inr impacts
      \<longrightarrow> map_of impacts (clean_name c) = None) \<and>
   (patient_conditions pd = patient_conditions pd' \<and>
    predict P pd = Inr bp \<and> predict P pd' = Inr bp'
      \<longrightarrow> get_condition_impact P pd = get_condition_impact P pd')"
proof -
  have 1: "has_condition pd c \<longleftrightarrow>
      map_of pd c \<in> {Some (PInt 1), Some (PFloat 1), Some (PBool True)}"
  proof (cases "map_of pd c")
    case None
    then show ?thesis by (simp add: has_condition_def)
  next
    case (Some v)
    then show ?thesis by (cases v) (auto simp: has_condition_def)
  qed
  have keys: "\<exists>c' \<in> set condition_fields. has_condition pd c' \<and> name = clean_name c'"
    if g: "get_condition_impact P pd = Inr impacts" and m: "map_of impacts name = Some x"
    for impacts name x
  proof -
    from get_condition_impact_cases [OF g] m obtain imps where
      "impacts = with_fallback (patient_conditions pd)
                 (impacts_from_weights (feature_columns P) imps (patient_conditions pd))"
      by auto
    with m have "name \<in> clean_name ` set (patient_conditions pd)"
      using impact_keys by blast
    then show ?thesis by (auto simp: set_patient_conditions)
  qed
  have 7: "map_of impacts (clean_name c) = None"
    if c: "c \<in> set condition_fields" and a: "\<not> has_condition pd c"
      and g: "get_condition_impact P pd = Inr impacts"
  proof (rule ccontr)
    assume "map_of impacts (clean_name c) \<noteq> None"
    then obtain y where "map_of impacts (clean_name c) = Some y" by auto
    from keys [OF g this] obtain c' where
      c': "c' \<in> set condition_fields" "has_condition pd c'" "clean_name c = clean_name c'"
      by blast
    from clean_name_inj [OF c c'(1) c'(3)] c'(2) a show False by simp
  qed
  have 8: "get_condition_impact P pd = get_condition_impact P pd'"
    if "patient_conditions pd = patient_conditions pd'"
      and "predict P pd = Inr bp" and "predict P pd' = Inr bp'"
    using that by (simp add: get_condition_impact_def)
  show ?thesis
    apply (intro conjI impI)
    apply (rule 1)
    apply (simp add: has_condition_def)
    apply (simp add: has_condition_def)
    apply (simp add: has_condition_def)
    apply (rule set_patient_conditions)
    apply (erule conjE, erule (1) keys)
    apply (elim conjE, erule (2) 7)
    apply (elim conjE, erule (2) 8)
    done
qed

theorem condition_presence_witness:
  "\<not> has_condition mixed_record ''sp_chf'' \<and> \<not> has_condition mixed_record ''sp_diabetes'' \<and>
   \<not> has_condition mixed_record ''sp_copd'' \<and> has_condition mixed_record ''sp_cncr'' \<and>
   get_condition_impact demo_predictor mixed_record =
     get_condition_impact demo_predictor [(''sp_cncr'', PInt 1)]"
proof -
  have p1: "predict demo_predictor mixed_record =
             Inr [(''30d_hospitalization_score'', 85 / 100), (''mortality_score'', 1 / 10)]"
    by (simp add: predict_def demo_predictor_def normalize_input_eq demo_estimator_def)
  have p2: "predict demo_predictor [(''sp_cncr'', PInt 1)] =
             Inr [(''30d_hospitalization_score'', 85 / 100), (''mortality_score'', 1 / 10)]"
    by (simp add: predict_def demo_predictor_def normalize_input_eq demo_estimator_def)
  have pc: "patient_conditions mixed_record = patient_conditions [(''sp_cncr'', PInt 1)]"
    by (simp add: patient_conditions_def condition_fields_def has_condition_def mixed_record_def)
  have a: "\<not> has_condition mixed_record ''sp_chf''"
    using condition_presence [of mixed_record "''sp_chf''"] by (simp add: mixed_record_def)
  have b: "\<not> has_condition mixed_record ''sp_diabetes''"
    using condition_presence [of mixed_record "''sp_diabetes''" "''1''"]
    by (simp add: mixed_record_def)
  have c: "\<not> has_condition mixed_record ''sp_copd''"
    using condition_presence [of mixed_record "''sp_copd''"] by (simp add: mixed_record_def)
  have d: "has_condition mixed_record ''sp_cncr''"
    using condition_presence [of mixed_record "''sp_cncr''"] by (simp add: mixed_record_def)
  have e: "get_condition_impact demo_predictor mixed_record =
     get_condition_impact demo_predictor [(''sp_cncr'', PInt 1)]"
    using condition_presence [of mixed_record _ _ demo_predictor _ _ _ "[(''sp_cncr'', PInt 1)]"]
      pc p1 p2 by blast
  from a b c d e show ?thesis by blast
qed

section \<open>Persistence of the result\<close>

lemma store_unreachable:
  "\<not> reachable d \<Longrightarrow> store_prediction_results rt d all_data = (Inl DbError, d)"
  by (simp add: store_prediction_results_def)

lemma store_reachable:
  "reachable d \<Longrightarrow> fst (store_prediction_results rt d all_data) = Inr ()"
  by (simp add: store_prediction_results_def Let_def)

lemma store_failure_unchanged:
  "store_prediction_results rt d all_data = (Inl e, d') \<Longrightarrow> d' = d"
  by (cases "reachable d") (auto simp: store_prediction_results_def Let_def)

text \<open>
  C9, as the code has it. \<^verbatim>\<open>process_uploaded_data\<close> persists its own result: when it returns a
  result, the store of that complete result has succeeded and the database is the one that
  store leaves; the database changes only in this way. A failure while the features are built
  or the scores are predicted returns the error with the database unchanged, and so does an
  unreachable database. On the sample form the call itself inserts the patient's row.
\<close>

theorem persistence_inside_pipeline:
  "(fst (process_uploaded_data rt P d form_data) = Inr res \<longrightarrow>
      fst (store_prediction_results rt d res) = Inr () \<and>
      snd (process_uploaded_data rt P d form_data) = snd (store_prediction_results rt d res)) \<and>
   (snd (process_uploaded_data rt P d form_data) \<noteq> d \<longrightarrow>
      (\<exists>res'. fst (process_uploaded_data rt P d form_data) = Inr res' \<and>
         snd (process_uploaded_data rt P d form_data) = snd (store_prediction_results rt d res'))) \<and>
   (build_features rt form_data = Inl e \<longrightarrow>
      process_uploaded_data rt P d form_data = (Inl e, d)) \<and>
   (build_features rt form_data = Inr pd \<and> predict P (lower_keys pd) = Inl e \<longrightarrow>
      process_uploaded_data rt P d form_data = (Inl e, d)) \<and>
   (\<not> reachable d \<longrightarrow>
      snd (process_uploaded_data rt P d form_data) = d \<and>
      (\<exists>e'. fst (process_uploaded_data rt P d form_data) = Inl e'))"
proof -
  have 1: "fst (store_prediction_results rt d res) = Inr () \<and>
      snd (process_uploaded_data rt P d form_data) = snd (store_prediction_results rt d res)"
    if "fst (process_uploaded_data rt P d form_data) = Inr res" for res
    using that
    by (auto simp: process_uploaded_data_def split: sum.splits prod.splits)
  have 2: "\<exists>res'. fst (process_uploaded_data rt P d form_data) = Inr res' \<and>
         snd (process_uploaded_data rt P d form_data) = snd (store_prediction_results rt d res')"
    if "snd (process_uploaded_data rt P d form_data) \<noteq> d"
  proof (cases "fst (process_uploaded_data rt P d form_data)")
    case (Inl e')
    then have "snd (process_uploaded_data rt P d form_data) = d"
      by (auto simp: process_uploaded_data_def split: sum.splits prod.splits
            dest: store_failure_unchanged)
    with that show ?thesis by simp
  next
    case (Inr r)
    with 1 [OF Inr] show ?thesis by simp
  qed
  have 5: "snd (process_uploaded_data rt P d form_data) = d \<and>
      (\<exists>e'. fst (process_uploaded_data rt P d form_data) = Inl e')" if "\<not> reachable d"
    using that
    by (auto simp: process_uploaded_data_def store_unreachable split: sum.splits prod.splits)
  show ?thesis
    apply (intro conjI impI)
    apply (drule 1, simp)
    apply (drule 1, simp)
    apply (erule 2)
    apply (simp add: process_uploaded_data_def)
    apply (simp add: process_uploaded_data_def)
    apply (drule 5, simp)
    apply (drule 5, simp)
    done
qed

theorem persistence_inside_pipeline_witness:
  "fst (store_prediction_results demo_rt demo_db demo_result) = Inr () \<and>
   snd (process_uploaded_data demo_rt demo_predictor demo_db demo_form) =
     snd (store_prediction_results demo_rt demo_db demo_result)"
  using persistence_inside_pipeline [of demo_rt demo_predictor demo_db demo_form demo_result]
    demo_run by blast

theorem persistence_inside_pipeline_counterexample:
  "patients demo_db ''A1'' = None \<and>
   patients (snd (process_uploaded_data demo_rt demo_predictor demo_db demo_form)) ''A1'' =
     Some (PStr ''Bob'')"
  by code_simp

section \<open>Condition flags of the intake form\<close>

text \<open>
  C2, at an input where the code departs from it. A form whose only field is the lowercase
  key \<^verbatim>\<open>sp_chf\<close> has that key dropped (line 155 compares the uppercased key with the prefix)
  and yet gets \<^verbatim>\<open>SP_CHF = 0\<close>, since line 163 looks the uppercase code up in the raw form;
  the same field under the key \<^verbatim>\<open>SP_CHF\<close> gives 1 whatever its value.
\<close>

theorem condition_flags_failing_input:
  "build_features demo_rt lowercase_form =
     Inr [(''SP_CHF'', PInt 0), (''SP_DIABETES'', PInt 0), (''SP_CHRNKIDN'', PInt 0),
          (''SP_CNCR'', PInt 0), (''SP_COPD'', PInt 0), (''SP_DEPRESSN'', PInt 0),
          (''SP_ISCHMCHT'', PInt 0), (''SP_STRKETIA'', PInt 0), (''SP_ALZHDMTA'', PInt 0),
          (''SP_OSTEOPRS'', PInt 0), (''SP_RA_OA'', PInt 0), (''age_65_74'', PInt 0),
          (''age_75_84'', PInt 0), (''age_85_plus'', PInt 0),
          (''high_impact_conditions'', PInt 0), (''prior_hospitalization'', PInt 0),
          (''frequent_ed_user'', PInt 0), (''high_cost_patient'', PInt 0)] \<and>
   build_features demo_rt uppercase_form =
     Inr [(''SP_CHF'', PInt 1), (''SP_DIABETES'', PInt 0), (''SP_CHRNKIDN'', PInt 0),
          (''SP_CNCR'', PInt 0), (''SP_COPD'', PInt 0), (''SP_DEPRESSN'', PInt 0),
          (''SP_ISCHMCHT'', PInt 0), (''SP_STRKETIA'', PInt 0), (''SP_ALZHDMTA'', PInt 0),
          (''SP_OSTEOPRS'', PInt 0), (''SP_RA_OA'', PInt 0), (''age_65_74'', PInt 0),
          (''age_75_84'', PInt 0), (''age_85_plus'', PInt 0),
          (''high_impact_conditions'', PInt 1), (''prior_hospitalization'', PInt 0),
          (''frequent_ed_user'', PInt 0), (''high_cost_patient'', PInt 0)]"
  by code_simp

end
